theory Spec2Isabelle
  imports Complex_Main "HOL-Library.Word" "HOL-Library.Numeral_Type" "HOL-Library.Log_Nat"
begin

section \<open>Risk scoring and history engine of the mining-risk dashboard (app.py)\<close>

text \<open>
  The development embeds the decision logic of \<^verbatim>\<open>app.py\<close>: \<^verbatim>\<open>compute_score\<close>, the bench
  and group catalog, and the callback \<^verbatim>\<open>update_dashboard\<close> (scoring loop, history buffer,
  chart series, map layers).

  Numbers. Python's \<^verbatim>\<open>int\<close> and \<^verbatim>\<open>float\<close> values are both embedded as \<^typ>\<open>real\<close>: every
  arithmetic operation of the source is the exact operation on reals, and IEEE-754 rounding
  of intermediate results is not part of the model.

  Randomness. The module-level generator of Python's \<^verbatim>\<open>random\<close> is process-wide mutable
  state. It is embedded as an explicit value that every drawing function takes and
  returns.
\<close>

subsection \<open>The shared random source\<close>

text \<open>
  \<^verbatim>\<open>random.random()\<close> of CPython returns \<open>k / 2^53\<close> for a 53-bit integer \<open>k\<close> taken from
  the generator. The source of randomness is the sequence of those 53-bit integers together
  with the number of them used so far.
\<close>

record random_source =
  outputs :: "nat \<Rightarrow> 53 word"
  consumed :: nat

definition random_unit :: "random_source \<Rightarrow> real \<times> random_source" where
  "random_unit g =
     (real (unat (outputs g (consumed g))) / 2 ^ 53, g\<lparr>consumed := Suc (consumed g)\<rparr>)"

text \<open>\<^verbatim>\<open>random.uniform(a, b)\<close> is \<^verbatim>\<open>a + (b - a) * self.random()\<close>.\<close>

definition uniform :: "real \<Rightarrow> real \<Rightarrow> random_source \<Rightarrow> real \<times> random_source" where
  "uniform a b g = (case random_unit g of (u, g') \<Rightarrow> (a + (b - a) * u, g'))"

text \<open>
  \<^verbatim>\<open>random.randint(a, b)\<close> returns an integer of \<open>a..b\<close>. The library picks it by rejection
  sampling on raw bits; here it is one draw scaled to the \<open>b - a + 1\<close> values.
\<close>

definition randint :: "int \<Rightarrow> int \<Rightarrow> random_source \<Rightarrow> real \<times> random_source" where
  "randint a b g =
     (case random_unit g of (u, g') \<Rightarrow> (of_int (a + \<lfloor>u * of_int (b - a + 1)\<rfloor>), g'))"

subsection \<open>Rounding to one decimal\<close>

text \<open>
  \<^verbatim>\<open>round(x, 1)\<close> and \<^verbatim>\<open>f"{x:.1f}"\<close> round the value to the nearest multiple of \<open>1/10\<close>,
  a tie going to the even last digit.
\<close>

definition round_half_even :: "real \<Rightarrow> int" where
  "round_half_even x =
     (let f = \<lfloor>x\<rfloor>; d = x - of_int f
      in if d < 1 / 2 then f
         else if 1 / 2 < d then f + 1
         else if even f then f else f + 1)"

definition round1 :: "real \<Rightarrow> real" where
  "round1 x = of_int (round_half_even (x * 10)) / 10"

subsection \<open>Helpers\<close>

definition risk_color :: "string \<Rightarrow> string" where
  "risk_color level =
     (if level = ''Low'' then ''#4CAF50''
      else if level = ''Medium'' then ''#F4C430''
      else if level = ''High'' then ''#E53935''
      else ''#4CAF50'')"

text \<open>The icons are the UTF-8 bytes of the green, yellow and red circle emoji.\<close>

definition risk_icon :: "string \<Rightarrow> string" where
  "risk_icon level =
     (if level = ''Low'' then [CHR 0xF0, CHR 0x9F, CHR 0x9F, CHR 0xA2]
      else if level = ''Medium'' then [CHR 0xF0, CHR 0x9F, CHR 0x9F, CHR 0xA1]
      else if level = ''High'' then [CHR 0xF0, CHR 0x9F, CHR 0x94, CHR 0xB4]
      else [CHR 0xF0, CHR 0x9F, CHR 0x9F, CHR 0xA2])"

text \<open>
  \<^verbatim>\<open>compute_score\<close>: the multiplier is drawn first and the noise second, as Python
  evaluates the two statements in order; with \<open>deterministic\<close> neither draw happens.
\<close>

definition compute_score ::
  "real \<Rightarrow> real \<Rightarrow> real \<Rightarrow> real \<Rightarrow> bool \<Rightarrow> random_source \<Rightarrow> (string \<times> real) \<times> random_source"
where
  "compute_score rain vib blast slope deterministic g =
     (case (if deterministic then (2.0, g) else uniform 1.5 3.0 g) of (mult, g1) \<Rightarrow>
      let vib_from_blast = blast * mult;
          total_vib = vib + vib_from_blast
      in case (if deterministic then (0, g1) else uniform (- 5) 5 g1) of (noise, g2) \<Rightarrow>
      let score = slope / 2 + rain * 0.4 + total_vib * 5 + blast * 3 + noise
      in if score < 40 then ((''Low'', score), g2)
         else if score < 70 then ((''Medium'', score), g2)
         else ((''High'', score), g2))"

subsection \<open>Data: benches and groups\<close>

record bench =
  bench_id :: string
  bench_slope :: real
  bench_coords :: "(real \<times> real) list"

definition benches :: "bench list" where
  "benches =
     [\<lparr>bench_id = ''Bench 1'', bench_slope = 35,
        bench_coords = [(23.1792, 72.6508), (23.1792, 72.6524), (23.1779, 72.6529),
                        (23.1768, 72.6518), (23.1775, 72.6506), (23.1792, 72.6508)]\<rparr>,
      \<lparr>bench_id = ''Bench 2'', bench_slope = 50,
        bench_coords = [(23.1735, 72.6448), (23.1736, 72.6468), (23.1724, 72.6473),
                        (23.1715, 72.6462), (23.1719, 72.6450), (23.1735, 72.6448)]\<rparr>,
      \<lparr>bench_id = ''Bench 3'', bench_slope = 45,
        bench_coords = [(23.1710, 72.6504), (23.1708, 72.6517), (23.1696, 72.6521),
                        (23.1688, 72.6510), (23.1694, 72.6499), (23.1710, 72.6504)]\<rparr>,
      \<lparr>bench_id = ''Bench 4'', bench_slope = 60,
        bench_coords = [(23.1670, 72.6420), (23.1672, 72.6445), (23.1653, 72.6450),
                        (23.1643, 72.6433), (23.1651, 72.6416), (23.1670, 72.6420)]\<rparr>]"

record group =
  group_benches :: "string list"

definition groups :: "group list" where
  "groups = [\<lparr>group_benches = [''Bench 1'', ''Bench 2'']\<rparr>,
             \<lparr>group_benches = [''Bench 3'', ''Bench 4'']\<rparr>]"

definition rivers :: "(real \<times> real) list list" where
  "rivers =
     [[(23.1785, 72.6390), (23.1760, 72.6450), (23.1738, 72.6510), (23.1745, 72.6570)],
      [(23.1722, 72.6460), (23.1718, 72.6510), (23.1728, 72.6550)]]"

definition haul_road :: "(real \<times> real) list" where
  "haul_road = [(23.1725, 72.6496), (23.1723, 72.6512)]"

definition truck_xy :: "real \<times> real" where
  "truck_xy = (23.1723, 72.6512)"

subsection \<open>Exceptions, dictionaries and the process state\<close>

datatype error = StopIteration | ZeroDivisionError | KeyError | ValueError

text \<open>
  A Python \<^verbatim>\<open>dict\<close> keeps its keys in insertion order; storing under a key that is
  present replaces the value where the key already stands.
\<close>

fun dict_set :: "(string \<times> 'v) list \<Rightarrow> string \<Rightarrow> 'v \<Rightarrow> (string \<times> 'v) list" where
  "dict_set [] k v = [(k, v)]"
| "dict_set ((k', v') # kvs) k v =
     (if k' = k then (k, v) # kvs else (k', v') # dict_set kvs k v)"

definition dict_update :: "(string \<times> 'v) list \<Rightarrow> (string \<times> 'v) list \<Rightarrow> (string \<times> 'v) list" where
  "dict_update d e = foldl (\<lambda>acc kv. dict_set acc (fst kv) (snd kv)) d e"

type_synonym history_record = "(string \<times> real) list"

text \<open>
  The module globals that the callbacks read and write: the list \<^verbatim>\<open>history\<close>, the generator
  of \<^verbatim>\<open>random\<close>, and the DEM overlay found (or not) when the module was loaded.
\<close>

record app_state =
  history :: "history_record list"
  rng :: random_source
  dem_overlay_path :: "string option"
  dem_bounds :: "((real \<times> real) \<times> (real \<times> real)) option"

subsection \<open>Rows of the results table\<close>

record result_row =
  Bench :: string
  Slope :: real
  Rainfall :: real
  Vibration :: real
  Blast :: real
  Score :: real
  Risk :: string

record table_row = result_row +
  Status :: string

text \<open>\<^verbatim>\<open>next(b for b in benches if b["id"] == bench_id)\<close> raises \<^verbatim>\<open>StopIteration\<close> when no bench matches.\<close>

definition next_bench :: "string \<Rightarrow> error + bench" where
  "next_bench bid =
     (case find (\<lambda>b. bench_id b = bid) benches of
        None \<Rightarrow> Inl StopIteration
      | Some b \<Rightarrow> Inr b)"

text \<open>The dictionary appended to \<^verbatim>\<open>results\<close> for one bench.\<close>

definition result_entry :: "string \<Rightarrow> bench \<Rightarrow> real \<Rightarrow> real \<Rightarrow> real \<Rightarrow> real \<Rightarrow> string \<Rightarrow> result_row" where
  "result_entry bid b gr gv gb score risk =
     \<lparr>Bench = bid, Slope = bench_slope b, Rainfall = gr, Vibration = gv, Blast = gb,
      Score = round1 score, Risk = risk\<rparr>"

text \<open>The inner loop of the scoring block: the benches of one group, with the group's reading.\<close>

fun score_group ::
  "string list \<Rightarrow> real \<Rightarrow> real \<Rightarrow> real \<Rightarrow> bool \<Rightarrow> result_row list \<times> random_source
     \<Rightarrow> error + result_row list \<times> random_source"
where
  "score_group [] gr gv gb deterministic (results, g) = Inr (results, g)"
| "score_group (bid # bids) gr gv gb deterministic (results, g) =
     (case next_bench bid of
        Inl e \<Rightarrow> Inl e
      | Inr b \<Rightarrow>
          (case compute_score gr gv gb (bench_slope b) deterministic g of
             ((risk, score), g') \<Rightarrow>
               score_group bids gr gv gb deterministic
                 (results @ [result_entry bid b gr gv gb score risk], g')))"

text \<open>The outer loop, over \<^verbatim>\<open>group_inputs\<close>.\<close>

fun score_groups ::
  "(group \<times> real \<times> real \<times> real) list \<Rightarrow> bool \<Rightarrow> result_row list \<times> random_source
     \<Rightarrow> error + result_row list \<times> random_source"
where
  "score_groups [] deterministic acc = Inr acc"
| "score_groups ((grp, gr, gv, gb) # rest) deterministic acc =
     (case score_group (group_benches grp) gr gv gb deterministic acc of
        Inl e \<Rightarrow> Inl e
      | Inr acc' \<Rightarrow> score_groups rest deterministic acc')"

subsection \<open>The history buffer\<close>

text \<open>
  The record of one tick: the six readings, then \<^verbatim>\<open>**{r["Bench"]: r["Score"] for r in results}\<close>.
\<close>

definition history_record :: "real \<Rightarrow> real \<Rightarrow> real \<Rightarrow> real \<Rightarrow> real \<Rightarrow> real \<Rightarrow> result_row list \<Rightarrow> history_record" where
  "history_record rain1 vib1 blast1 rain2 vib2 blast2 results =
     dict_update
       [(''rain1'', rain1), (''vib1'', vib1), (''blast1'', blast1),
        (''rain2'', rain2), (''vib2'', vib2), (''blast2'', blast2)]
       (dict_update [] (map (\<lambda>r. (Bench r, Score r)) results))"

text \<open>\<^verbatim>\<open>history.append(rec)\<close>, then \<^verbatim>\<open>history.pop(0)\<close> when more than 200 records are held.\<close>

definition append_history :: "history_record \<Rightarrow> history_record list \<Rightarrow> history_record list" where
  "append_history rec h =
     (let h' = h @ [rec] in if length h' > 200 then tl h' else h')"

subsection \<open>Chart series\<close>

text \<open>
  \<^verbatim>\<open>pd.DataFrame(history)\<close> has one column for every key that occurs in some record; a
  record without the key leaves a gap (\<open>None\<close>) in the column. Selecting a column that does
  not exist raises.
\<close>

definition df_column :: "history_record list \<Rightarrow> string \<Rightarrow> real option list option" where
  "df_column h k =
     (if list_ex (\<lambda>rec. map_of rec k \<noteq> None) h then Some (map (\<lambda>rec. map_of rec k) h)
      else None)"

fun df_columns ::
  "error \<Rightarrow> history_record list \<Rightarrow> (string \<times> string) list
     \<Rightarrow> error + (string \<times> real option list) list"
where
  "df_columns e h [] = Inr []"
| "df_columns e h ((k, name) # ks) =
     (case df_column h k of
        None \<Rightarrow> Inl e
      | Some col \<Rightarrow>
          (case df_columns e h ks of
             Inl e' \<Rightarrow> Inl e'
           | Inr cols \<Rightarrow> Inr ((name, col) # cols)))"

record figure =
  title :: string
  traces :: "(string \<times> real option list) list"

definition px_line :: "error \<Rightarrow> history_record list \<Rightarrow> (string \<times> string) list \<Rightarrow> string \<Rightarrow> error + figure" where
  "px_line e h ys ttl =
     (case df_columns e h ys of
        Inl e' \<Rightarrow> Inl e'
      | Inr cols \<Rightarrow> Inr \<lparr>title = ttl, traces = cols\<rparr>)"

text \<open>The three figures of the callback, built from the history after the append.\<close>

definition chart_figures :: "history_record list \<Rightarrow> error + figure \<times> figure \<times> figure" where
  "chart_figures h =
     (case px_line KeyError h
             [(''rain1'', ''Rain''), (''vib1'', ''Vibration''), (''blast1'', ''Blast'')]
             ''Environmental Inputs - Group 1'' of
        Inl e \<Rightarrow> Inl e
      | Inr env1_fig \<Rightarrow>
     (case px_line KeyError h
             [(''rain2'', ''Rain''), (''vib2'', ''Vibration''), (''blast2'', ''Blast'')]
             ''Environmental Inputs - Group 2'' of
        Inl e \<Rightarrow> Inl e
      | Inr env2_fig \<Rightarrow>
     (case px_line ValueError h (map (\<lambda>b. (bench_id b, bench_id b)) benches)
             ''Bench Risk Trend'' of
        Inl e \<Rightarrow> Inl e
      | Inr bench_fig \<Rightarrow> Inr (env1_fig, env2_fig, bench_fig))))"

text \<open>
  The table: \<^verbatim>\<open>df["Status"] = df["Risk"].map(risk_icon)\<close>; a frame built from no rows has no
  column \<^verbatim>\<open>Risk\<close>.
\<close>

definition results_table :: "result_row list \<Rightarrow> error + table_row list \<times> (string \<times> string) list" where
  "results_table results =
     (if results = [] then Inl KeyError
      else Inr (map (\<lambda>r. result_row.extend r \<lparr>Status = risk_icon (Risk r)\<rparr>) results,
                map (\<lambda>i. (i, i))
                  [''Bench'', ''Slope'', ''Rainfall'', ''Vibration'', ''Blast'', ''Score'',
                   ''Risk'', ''Status'']))"

subsection \<open>The map\<close>

datatype map_item =
    PolyLine "(real \<times> real) list" string real real
  | Marker "real \<times> real" string
  | Circle (location: "real \<times> real") (radius: real) (color: string) (fill_opacity: real)
      (tooltip: string)
  | ImageOverlay string "((real \<times> real) \<times> (real \<times> real)) option" real
  | LayerControl

record folium_map =
  map_location :: "real \<times> real"
  zoom_start :: nat
  tiles :: string
  items :: "map_item list"

fun show_nat :: "nat \<Rightarrow> string" where
  "show_nat n =
     (if n < 10 then [''0123456789'' ! n]
      else show_nat (n div 10) @ [''0123456789'' ! (n mod 10)])"

text \<open>\<^verbatim>\<open>f"{score:.1f}"\<close>: sign, integer part, point, one digit.\<close>

definition format_1f :: "real \<Rightarrow> string" where
  "format_1f x =
     (let n = nat (round_half_even (\<bar>x\<bar> * 10))
      in (if x < 0 then ''-'' else []) @ show_nat (n div 10) @ ''.'' @ show_nat (n mod 10))"

text \<open>\<^verbatim>\<open>center = [sum(lats)/len(lats), sum(lons)/len(lons)]\<close>\<close>

definition polygon_center :: "(real \<times> real) list \<Rightarrow> error + real \<times> real" where
  "polygon_center pts =
     (let lats = map fst pts; lons = map snd pts
      in if length lats = 0 then Inl ZeroDivisionError
         else Inr (sum_list lats / real (length lats), sum_list lons / real (length lons)))"

text \<open>
  \<^verbatim>\<open>for layer in range(3)\<close>: the scorer is called again for every layer, on the reading
  fields of the row and the slope of the bench plus \<open>layer * 2\<close>.
\<close>

fun layer_scores ::
  "nat list \<Rightarrow> result_row \<Rightarrow> bench \<Rightarrow> bool \<Rightarrow> random_source
     \<Rightarrow> (nat \<times> string \<times> real) list \<times> random_source"
where
  "layer_scores [] r b deterministic g = ([], g)"
| "layer_scores (layer # layers) r b deterministic g =
     (case compute_score (Rainfall r) (Vibration r) (Blast r)
             (bench_slope b + real layer * 2) deterministic g of
        ((risk, score), g') \<Rightarrow>
          (case layer_scores layers r b deterministic g' of
             (rest, g'') \<Rightarrow> ((layer, risk, score) # rest, g'')))"

definition layer_circle :: "bench \<Rightarrow> real \<times> real \<Rightarrow> nat \<times> string \<times> real \<Rightarrow> map_item" where
  "layer_circle b center lrs =
     (case lrs of (layer, risk, score) \<Rightarrow>
        Circle center (30 * (real layer + 1)) (risk_color risk) 0.5
          (bench_id b @ '' - Layer '' @ show_nat (layer + 1) @ '': '' @ risk
             @ '' ('' @ format_1f score @ '')''))"

fun bench_zones ::
  "result_row list \<Rightarrow> bool \<Rightarrow> map_item list \<times> random_source
     \<Rightarrow> error + map_item list \<times> random_source"
where
  "bench_zones [] deterministic acc = Inr acc"
| "bench_zones (r # rs) deterministic (m, g) =
     (case next_bench (Bench r) of
        Inl e \<Rightarrow> Inl e
      | Inr b \<Rightarrow>
          (case polygon_center (bench_coords b) of
             Inl e \<Rightarrow> Inl e
           | Inr center \<Rightarrow>
               (case layer_scores [0..<3] r b deterministic g of
                  (ls, g') \<Rightarrow>
                    bench_zones rs deterministic
                      (m @ map (layer_circle b center) ls
                         @ [Marker center (''<b>'' @ bench_id b @ ''</b>'')], g'))))"

definition static_furniture :: "map_item list" where
  "static_furniture =
     map (\<lambda>line. PolyLine line ''#1E88E5'' 3 0.8) rivers
       @ [PolyLine haul_road ''#666'' 5 0.9, Marker truck_xy ''Hauler'']"

definition dem_items :: "bool \<Rightarrow> app_state \<Rightarrow> map_item list" where
  "dem_items show_dem st =
     (case dem_overlay_path st of
        None \<Rightarrow> []
      | Some path \<Rightarrow>
          if show_dem \<and> path \<noteq> [] then [ImageOverlay path (dem_bounds st) 0.6, LayerControl]
          else [])"

subsection \<open>The callback \<^verbatim>\<open>update_dashboard\<close>\<close>

text \<open>In Auto mode the six readings are drawn, left to right, before anything is scored.\<close>

definition auto_readings ::
  "random_source \<Rightarrow> (real \<times> real \<times> real \<times> real \<times> real \<times> real) \<times> random_source"
where
  "auto_readings g =
     (case randint 0 200 g of (rain1, ga) \<Rightarrow>
      case uniform 0 10 ga of (u1, gb) \<Rightarrow>
      case randint 0 5 gb of (blast1, gc) \<Rightarrow>
      case randint 0 200 gc of (rain2, gd) \<Rightarrow>
      case uniform 0 10 gd of (u2, ge) \<Rightarrow>
      case randint 0 5 ge of (blast2, gf) \<Rightarrow>
        ((rain1, round1 u1, blast1, rain2, round1 u2, blast2), gf))"

definition tick_readings ::
  "string \<Rightarrow> real \<Rightarrow> real \<Rightarrow> real \<Rightarrow> real \<Rightarrow> real \<Rightarrow> real \<Rightarrow> random_source
     \<Rightarrow> (real \<times> real \<times> real \<times> real \<times> real \<times> real) \<times> random_source"
where
  "tick_readings mode rain1 vib1 blast1 rain2 vib2 blast2 g =
     (if mode = ''Auto'' then auto_readings g
      else ((rain1, vib1, blast1, rain2, vib2, blast2), g))"

record dashboard =
  env1_fig :: figure
  env2_fig :: figure
  bench_fig :: figure
  data :: "table_row list"
  columns :: "(string \<times> string) list"
  map_srcDoc :: folium_map

definition update_dashboard ::
  "real \<Rightarrow> real \<Rightarrow> real \<Rightarrow> real \<Rightarrow> real \<Rightarrow> real \<Rightarrow> int \<Rightarrow> bool \<Rightarrow> string \<Rightarrow> app_state
     \<Rightarrow> error + dashboard \<times> app_state"
where
  "update_dashboard rain1 vib1 blast1 rain2 vib2 blast2 n_intervals show_dem mode st =
     (let deterministic = (mode = ''Manual'')
      in case tick_readings mode rain1 vib1 blast1 rain2 vib2 blast2 (rng st) of
           ((rain1, vib1, blast1, rain2, vib2, blast2), g0) \<Rightarrow>
      let group_inputs = [(groups ! 0, rain1, vib1, blast1), (groups ! 1, rain2, vib2, blast2)]
      in case score_groups group_inputs deterministic ([], g0) of
           Inl e \<Rightarrow> Inl e
         | Inr (results, g1) \<Rightarrow>
      let history' =
            append_history (history_record rain1 vib1 blast1 rain2 vib2 blast2 results)
              (history st)
      in case chart_figures history' of
           Inl e \<Rightarrow> Inl e
         | Inr (env1, env2, bfig) \<Rightarrow>
      (case results_table results of
           Inl e \<Rightarrow> Inl e
         | Inr (rows, cols) \<Rightarrow>
      (case bench_zones results deterministic (static_furniture, g1) of
           Inl e \<Rightarrow> Inl e
         | Inr (m, g2) \<Rightarrow>
             Inr (\<lparr>env1_fig = env1, env2_fig = env2, bench_fig = bfig, data = rows,
                    columns = cols,
                    map_srcDoc = \<lparr>map_location = (23.172, 72.649), zoom_start = 14,
                                   tiles = ''CartoDB Positron'',
                                   items = m @ dem_items show_dem st\<rparr>\<rparr>,
                  st\<lparr>history := history', rng := g2\<rparr>))))"

subsection \<open>The callback \<^verbatim>\<open>export_csv\<close>\<close>

text \<open>
  \<^verbatim>\<open>export_csv\<close> builds \<^verbatim>\<open>pd.DataFrame(history)\<close> and hands its \<^verbatim>\<open>to_csv\<close> to the download
  under the name \<^verbatim>\<open>risk_report.csv\<close>. The frame has one column for every key, in the order
  in which the keys first occur, and one row for every record. The text that \<^verbatim>\<open>pandas\<close>
  writes for the frame is not part of the model: the download is embedded as the file
  name and the frame.
\<close>

definition frame_columns :: "history_record list \<Rightarrow> string list" where
  "frame_columns h = rev (remdups (rev (concat (map (map fst) h))))"

definition data_frame :: "history_record list \<Rightarrow> (string \<times> real option list) list" where
  "data_frame h = map (\<lambda>k. (k, map (\<lambda>rec. map_of rec k) h)) (frame_columns h)"

definition export_csv :: "int \<Rightarrow> app_state \<Rightarrow> string \<times> (string \<times> real option list) list" where
  "export_csv n st = (''risk_report.csv'', data_frame (history st))"

subsection \<open>The downloaded text\<close>

text \<open>
  \<^verbatim>\<open>dcc.send_data_frame(df.to_csv, "risk_report.csv")\<close> calls \<^verbatim>\<open>df.to_csv\<close> with no further
  argument and sends the text that it writes. \<^verbatim>\<open>DataFrame.to_csv\<close> and \<^verbatim>\<open>read_csv\<close> are code
  of pandas and not of this program: they are modelled here from the pandas documentation,
  for the defaults that this call uses. These are the separator \<open>,\<close>, a line feed after
  every line, a header line, the row index written as the first column with an empty
  header cell (\<^verbatim>\<open>index=True\<close>), a missing value written as the empty cell, and a cell put
  in double quotes only when it holds a separator, a quote or a line end.

  The history holds every value as the real number it stands for, so the text of a value is
  its decimal expansion, to at most 17 fractional digits. That is what \<^verbatim>\<open>repr\<close>, the
  shortest decimal that reads back as the same double, prints for the values that this
  program stores: integers, and the doubles nearest to a number with one decimal. Python
  changes to exponent notation below \<open>10^-4\<close> and from \<open>10^16\<close> on; that is not modelled.

  pandas writes an integral value of a \<^verbatim>\<open>float64\<close> column with a trailing \<^verbatim>\<open>.0\<close> and one of
  an \<^verbatim>\<open>int64\<close> column without it, and a column is \<^verbatim>\<open>float64\<close> as soon as one of its values is
  a Python \<^verbatim>\<open>float\<close> or is missing. The history of the embedding does not keep the Python
  type of a value, so which columns are \<^verbatim>\<open>float64\<close> is the parameter \<open>float_col\<close>.
\<close>

fun frac_digits :: "nat \<Rightarrow> real \<Rightarrow> string" where
  "frac_digits 0 f = []"
| "frac_digits (Suc n) f =
     (let d = nat \<lfloor>f * 10\<rfloor>
      in (''0123456789'' ! d)
         # (if f * 10 - real d = 0 then [] else frac_digits n (f * 10 - real d)))"

definition number_text :: "bool \<Rightarrow> real \<Rightarrow> string" where
  "number_text float x =
     (let a = \<bar>x\<bar>; f = a - of_int \<lfloor>a\<rfloor>
      in (if x < 0 then ''-'' else []) @ show_nat (nat \<lfloor>a\<rfloor>)
         @ (if f = 0 \<and> \<not> float then [] else ''.'' @ frac_digits 17 f))"

definition cell_text :: "bool \<Rightarrow> real option \<Rightarrow> string" where
  "cell_text float v = (case v of None \<Rightarrow> [] | Some x \<Rightarrow> number_text float x)"

text \<open>The \<^verbatim>\<open>csv\<close> writer with \<^verbatim>\<open>QUOTE_MINIMAL\<close>; a line of one empty cell is written \<^verbatim>\<open>""\<close>.\<close>

definition csv_field :: "string \<Rightarrow> string" where
  "csv_field s =
     (if list_ex (\<lambda>c. c \<in> set [CHR '','', CHR 0x22, CHR 0x0A, CHR 0x0D]) s
      then [CHR 0x22] @ concat (map (\<lambda>c. if c = CHR 0x22 then [c, c] else [c]) s) @ [CHR 0x22]
      else s)"

fun join :: "string \<Rightarrow> string list \<Rightarrow> string" where
  "join sep [] = []"
| "join sep [x] = x"
| "join sep (x # y # ys) = x @ sep @ join sep (y # ys)"

definition csv_line :: "string list \<Rightarrow> string" where
  "csv_line cells =
     (if cells = [[]] then [CHR 0x22, CHR 0x22] else join '','' (map csv_field cells))
       @ [CHR 0x0A]"

text \<open>
  The header line, then line \<open>i\<close> for each of the \<open>n\<close> rows: the index \<open>i\<close> and the cell of
  every column.
\<close>

definition to_csv :: "(string \<Rightarrow> bool) \<Rightarrow> nat \<Rightarrow> (string \<times> real option list) list \<Rightarrow> string" where
  "to_csv float_col n cols =
     concat (map csv_line
       (([] # map fst cols)
        # map (\<lambda>i. show_nat i
                  # map (\<lambda>col. if i < length (snd col)
                             then cell_text (float_col (fst col)) (snd col ! i) else [])
                      cols)
            [0..<n]))"

definition download_content :: "(string \<Rightarrow> bool) \<Rightarrow> int \<Rightarrow> app_state \<Rightarrow> string" where
  "download_content float_col n st =
     to_csv float_col (length (history st)) (snd (export_csv n st))"

subsection \<open>Reading the text back\<close>

text \<open>
  \<^verbatim>\<open>pd.read_csv\<close> with its defaults, again from the pandas documentation: blank lines are
  skipped, the first line gives the column names, a column whose header cell is empty is
  named \<^verbatim>\<open>Unnamed: i\<close> by its position \<open>i\<close>, and an empty cell is a missing value. Quoted
  cells, cells that are not numbers, rows of another length than the header and the
  renaming of duplicate names are outside this model: on such a text it returns \<open>None\<close>.
\<close>

fun split_on :: "char \<Rightarrow> string \<Rightarrow> string list" where
  "split_on c [] = [[]]"
| "split_on c (x # xs) =
     (if x = c then [] # split_on c xs
      else (case split_on c xs of
              [] \<Rightarrow> [[x]]
            | w # ws \<Rightarrow> (x # w) # ws))"

definition split_lines :: "string \<Rightarrow> string list" where
  "split_lines t = filter (\<lambda>l. l \<noteq> []) (split_on (CHR 0x0A) t)"

definition digit_value :: "char \<Rightarrow> nat option" where
  "digit_value c = (if c \<in> set ''0123456789'' then Some (of_char c - 48) else None)"

fun parse_digits :: "nat \<Rightarrow> string \<Rightarrow> nat option" where
  "parse_digits acc [] = Some acc"
| "parse_digits acc (c # cs) =
     (case digit_value c of
        None \<Rightarrow> None
      | Some d \<Rightarrow> parse_digits (acc * 10 + d) cs)"

fun frac_value :: "string \<Rightarrow> real option" where
  "frac_value [] = Some 0"
| "frac_value (c # cs) =
     (case digit_value c of
        None \<Rightarrow> None
      | Some d \<Rightarrow> map_option (\<lambda>v. (real d + v) / 10) (frac_value cs))"

definition parse_unsigned :: "string \<Rightarrow> real option" where
  "parse_unsigned s =
     (let ip = takeWhile (\<lambda>c. c \<noteq> CHR ''.'') s;
          rest = dropWhile (\<lambda>c. c \<noteq> CHR ''.'') s
      in if ip = [] then None
         else (case parse_digits 0 ip of
                 None \<Rightarrow> None
               | Some i \<Rightarrow>
                   if rest = [] then Some (real i)
                   else if tl rest = [] then None
                   else map_option (\<lambda>v. real i + v) (frac_value (tl rest))))"

definition parse_number :: "string \<Rightarrow> real option" where
  "parse_number s =
     (case s of
        [] \<Rightarrow> None
      | c # cs \<Rightarrow> if c = CHR ''-'' then map_option uminus (parse_unsigned cs)
                 else parse_unsigned s)"

definition parse_cell :: "string \<Rightarrow> real option option" where
  "parse_cell s = (if s = [] then Some None else map_option Some (parse_number s))"

definition header_names :: "string list \<Rightarrow> string list" where
  "header_names cells =
     map (\<lambda>(i, c). if c = [] then ''Unnamed: '' @ show_nat i else c) (enumerate 0 cells)"

definition read_csv :: "string \<Rightarrow> (string \<times> real option list) list option" where
  "read_csv t =
     (if CHR 0x22 \<in> set t then None
      else (case split_lines t of
              [] \<Rightarrow> None
            | header # body \<Rightarrow>
                let names = header_names (split_on (CHR '','') header);
                    rows = map (\<lambda>l. map parse_cell (split_on (CHR '','') l)) body
                in if list_all (\<lambda>r. length r = length names \<and> list_all (\<lambda>c. c \<noteq> None) r) rows
                   then Some (map (\<lambda>(j, nm). (nm, map (\<lambda>r. the (r ! j)) rows))
                                (enumerate 0 names))
                   else None))"

text \<open>
  Texts that the writer leaves unquoted, and numbers that the writer prints in full.
\<close>

definition plain_text :: "string \<Rightarrow> bool" where
  "plain_text s = (\<not> list_ex (\<lambda>c. c \<in> set [CHR '','', CHR 0x22, CHR 0x0A, CHR 0x0D]) s)"

definition short_decimal :: "real \<Rightarrow> bool" where
  "short_decimal x = (of_int \<lfloor>x * 10 ^ 17\<rfloor> = x * 10 ^ 17)"

text \<open>
  The keys of the record that one tick appends, in the order of the dictionary, and the
  records with these keys whose values the writer prints in full.
\<close>

definition record_fields :: "string list" where
  "record_fields = [''rain1'', ''vib1'', ''blast1'', ''rain2'', ''vib2'', ''blast2'',
                    ''Bench 1'', ''Bench 2'', ''Bench 3'', ''Bench 4'']"

definition tick_record :: "history_record \<Rightarrow> bool" where
  "tick_record rec = (map fst rec = record_fields \<and> list_all short_decimal (map snd rec))"

subsection \<open>The scorer in double precision\<close>






subsection \<open>Runs of the callback\<close>

text \<open>
  The framework calls \<^verbatim>\<open>update_dashboard\<close> once per trigger (a slider change or a timer
  tick), each call starting in the state the previous one left. A run is the list of the
  argument tuples of those calls.
\<close>

type_synonym tick_input = "real \<times> real \<times> real \<times> real \<times> real \<times> real \<times> int \<times> bool \<times> string"

fun run_ticks :: "tick_input list \<Rightarrow> app_state \<Rightarrow> error + app_state" where
  "run_ticks [] st = Inr st"
| "run_ticks ((rain1, vib1, blast1, rain2, vib2, blast2, n_intervals, show_dem, mode) # ts) st =
     (case update_dashboard rain1 vib1 blast1 rain2 vib2 blast2 n_intervals show_dem mode st of
        Inl e \<Rightarrow> Inl e
      | Inr (out, st') \<Rightarrow> run_ticks ts st')"

text \<open>
  A tick whose readings are printed in full: in Auto mode the readings are drawn, in
  Manual mode they are the slider values.
\<close>

definition decimal_tick :: "tick_input \<Rightarrow> bool" where
  "decimal_tick t =
     (case t of (rain1, vib1, blast1, rain2, vib2, blast2, n_intervals, show_dem, mode) \<Rightarrow>
        mode = ''Auto'' \<or> list_all short_decimal [rain1, vib1, blast1, rain2, vib2, blast2])"

subsection \<open>Example states\<close>

text \<open>
  A random source all of whose outputs are \<open>2^52\<close>, so that every \<^verbatim>\<open>random.random()\<close>
  is \<open>1/2\<close>, after \<open>k\<close> draws; and the state of a process that has just started and
  found no DEM file.
\<close>

definition half_source :: "nat \<Rightarrow> random_source" where
  "half_source k = \<lparr>outputs = \<lambda>_. 2 ^ 52, consumed = k\<rparr>"

definition fresh_state :: "random_source \<Rightarrow> app_state" where
  "fresh_state g = \<lparr>history = [], rng = g, dem_overlay_path = None, dem_bounds = None\<rparr>"

text \<open>
  The record that the first Auto tick appends with that random source, and the columns
  that are \<^verbatim>\<open>float64\<close> in a history of Auto ticks: \<^verbatim>\<open>randint\<close> returns an \<^verbatim>\<open>int\<close>, while
  \<^verbatim>\<open>round(random.uniform(0, 10), 1)\<close> and \<^verbatim>\<open>round(score, 1)\<close> are floats.
\<close>

definition one_record :: history_record where
  "one_record =
     [(''rain1'', 100), (''vib1'', 5), (''blast1'', 3),
      (''rain2'', 100), (''vib2'', 5), (''blast2'', 3),
      (''Bench 1'', 125.2), (''Bench 2'', 132.8), (''Bench 3'', 130.2), (''Bench 4'', 137.8)]"

definition auto_float_column :: "string \<Rightarrow> bool" where
  "auto_float_column k =
     (k \<in> set [''vib1'', ''vib2'', ''Bench 1'', ''Bench 2'', ''Bench 3'', ''Bench 4''])"

section \<open>Auxiliary facts\<close>

subsection \<open>The random source and the scorer\<close>

lemma random_unit_range: "0 \<le> fst (random_unit g) \<and> fst (random_unit g) < 1"
proof -
  define k where "k = real (unat (outputs g (consumed g)))"
  have "unat (outputs g (consumed g)) < 2 ^ 53"
    using unsigned_less [of "outputs g (consumed g)", where ?'a = nat] by simp
  then have "real (unat (outputs g (consumed g))) < real (2 ^ 53)"
    by (simp only: of_nat_less_iff)
  then have "k < 2 ^ 53" by (simp add: k_def)
  moreover have "0 \<le> k" unfolding k_def by (rule of_nat_0_le_iff)
  moreover have "fst (random_unit g) = k / 2 ^ 53"
    by (simp add: random_unit_def k_def)
  ultimately show ?thesis by simp
qed

lemma uniform_range:
  assumes "a \<le> b"
  shows "a \<le> fst (uniform a b g) \<and> fst (uniform a b g) \<le> b"
proof -
  obtain u g' where ug: "random_unit g = (u, g')" by (cases "random_unit g")
  with random_unit_range [of g] have u: "0 \<le> u" "u < 1" by simp_all
  have "(b - a) * u \<le> (b - a) * 1"
    using assms u by (intro mult_left_mono) simp_all
  moreover have "0 \<le> (b - a) * u" using assms u by simp
  ultimately show ?thesis by (simp add: uniform_def ug)
qed

lemma compute_score_det_rng: "snd (compute_score rain vib blast slope True g) = g"
  by (simp add: compute_score_def Let_def)

lemma compute_score_det_indep:
  "fst (compute_score rain vib blast slope True g) = fst (compute_score rain vib blast slope True g')"
  by (simp add: compute_score_def Let_def)


subsection \<open>The scoring loop, the history record and the charts\<close>

lemma score_groups_catalog:
  "score_groups [(groups ! 0, r1, v1, b1), (groups ! 1, r2, v2, b2)] det ([], g0) =
     (case compute_score r1 v1 b1 35 det g0 of (c1, g1) \<Rightarrow>
      case compute_score r1 v1 b1 50 det g1 of (c2, g2) \<Rightarrow>
      case compute_score r2 v2 b2 45 det g2 of (c3, g3) \<Rightarrow>
      case compute_score r2 v2 b2 60 det g3 of (c4, g4) \<Rightarrow>
        Inr ([\<lparr>Bench = ''Bench 1'', Slope = 35, Rainfall = r1, Vibration = v1, Blast = b1,
                Score = round1 (snd c1), Risk = fst c1\<rparr>,
              \<lparr>Bench = ''Bench 2'', Slope = 50, Rainfall = r1, Vibration = v1, Blast = b1,
                Score = round1 (snd c2), Risk = fst c2\<rparr>,
              \<lparr>Bench = ''Bench 3'', Slope = 45, Rainfall = r2, Vibration = v2, Blast = b2,
                Score = round1 (snd c3), Risk = fst c3\<rparr>,
              \<lparr>Bench = ''Bench 4'', Slope = 60, Rainfall = r2, Vibration = v2, Blast = b2,
                Score = round1 (snd c4), Risk = fst c4\<rparr>], g4))"
  by (simp add: groups_def next_bench_def benches_def result_entry_def case_prod_beta)

lemma history_record_catalog:
  "history_record r1 v1 b1 r2 v2 b2
     [\<lparr>Bench = ''Bench 1'', Slope = sl1, Rainfall = ra1, Vibration = va1, Blast = ba1,
        Score = s1, Risk = k1\<rparr>,
      \<lparr>Bench = ''Bench 2'', Slope = sl2, Rainfall = ra2, Vibration = va2, Blast = ba2,
        Score = s2, Risk = k2\<rparr>,
      \<lparr>Bench = ''Bench 3'', Slope = sl3, Rainfall = ra3, Vibration = va3, Blast = ba3,
        Score = s3, Risk = k3\<rparr>,
      \<lparr>Bench = ''Bench 4'', Slope = sl4, Rainfall = ra4, Vibration = va4, Blast = ba4,
        Score = s4, Risk = k4\<rparr>] =
   [(''rain1'', r1), (''vib1'', v1), (''blast1'', b1),
    (''rain2'', r2), (''vib2'', v2), (''blast2'', b2),
    (''Bench 1'', s1), (''Bench 2'', s2), (''Bench 3'', s3), (''Bench 4'', s4)]"
  by (simp add: history_record_def dict_update_def)

lemma append_history_last: "rec \<in> set (append_history rec h)"
  by (cases h) (simp_all add: append_history_def Let_def)

lemma df_column_append_history:
  "map_of rec k \<noteq> None \<Longrightarrow>
   df_column (append_history rec h) k = Some (map (\<lambda>r. map_of r k) (append_history rec h))"
  using append_history_last [of rec h] by (auto simp: df_column_def list_ex_iff)

lemma chart_figures_catalog:
  assumes "rec = [(''rain1'', r1), (''vib1'', v1), (''blast1'', b1),
    (''rain2'', r2), (''vib2'', v2), (''blast2'', b2),
    (''Bench 1'', s1), (''Bench 2'', s2), (''Bench 3'', s3), (''Bench 4'', s4)]"
    and "h' = append_history rec h"
  shows "chart_figures h' =
     Inr (\<lparr>title = ''Environmental Inputs - Group 1'',
           traces = [(''Rain'', map (\<lambda>r. map_of r ''rain1'') h'),
                     (''Vibration'', map (\<lambda>r. map_of r ''vib1'') h'),
                     (''Blast'', map (\<lambda>r. map_of r ''blast1'') h')]\<rparr>,
          \<lparr>title = ''Environmental Inputs - Group 2'',
           traces = [(''Rain'', map (\<lambda>r. map_of r ''rain2'') h'),
                     (''Vibration'', map (\<lambda>r. map_of r ''vib2'') h'),
                     (''Blast'', map (\<lambda>r. map_of r ''blast2'') h')]\<rparr>,
          \<lparr>title = ''Bench Risk Trend'',
           traces = [(''Bench 1'', map (\<lambda>r. map_of r ''Bench 1'') h'),
                     (''Bench 2'', map (\<lambda>r. map_of r ''Bench 2'') h'),
                     (''Bench 3'', map (\<lambda>r. map_of r ''Bench 3'') h'),
                     (''Bench 4'', map (\<lambda>r. map_of r ''Bench 4'') h')]\<rparr>)"
proof -
  have k: "df_column h' k = Some (map (\<lambda>r. map_of r k) h')" if "map_of rec k \<noteq> None" for k
    using df_column_append_history [OF that, of h] assms(2) by simp
  have "df_column h' ''rain1'' = Some (map (\<lambda>r. map_of r ''rain1'') h')"
       "df_column h' ''vib1'' = Some (map (\<lambda>r. map_of r ''vib1'') h')"
       "df_column h' ''blast1'' = Some (map (\<lambda>r. map_of r ''blast1'') h')"
       "df_column h' ''rain2'' = Some (map (\<lambda>r. map_of r ''rain2'') h')"
       "df_column h' ''vib2'' = Some (map (\<lambda>r. map_of r ''vib2'') h')"
       "df_column h' ''blast2'' = Some (map (\<lambda>r. map_of r ''blast2'') h')"
       "df_column h' ''Bench 1'' = Some (map (\<lambda>r. map_of r ''Bench 1'') h')"
       "df_column h' ''Bench 2'' = Some (map (\<lambda>r. map_of r ''Bench 2'') h')"
       "df_column h' ''Bench 3'' = Some (map (\<lambda>r. map_of r ''Bench 3'') h')"
       "df_column h' ''Bench 4'' = Some (map (\<lambda>r. map_of r ''Bench 4'') h')"
    by (rule k, simp add: assms(1))+
  then show ?thesis
    by (simp add: chart_figures_def px_line_def benches_def)
qed

lemma results_table_rows:
  "rows \<noteq> [] \<Longrightarrow>
   results_table rows =
     Inr (map (\<lambda>r. result_row.extend r \<lparr>Status = risk_icon (Risk r)\<rparr>) rows,
          [(''Bench'', ''Bench''), (''Slope'', ''Slope''), (''Rainfall'', ''Rainfall''),
           (''Vibration'', ''Vibration''), (''Blast'', ''Blast''), (''Score'', ''Score''),
           (''Risk'', ''Risk''), (''Status'', ''Status'')])"
  by (simp add: results_table_def)

lemma update_dashboard_eval:
  assumes rd: "tick_readings mode r1 v1 b1 r2 v2 b2 (rng st)
                 = ((rain1, vib1, blast1, rain2, vib2, blast2), g0)"
    and c1: "compute_score rain1 vib1 blast1 35 (mode = ''Manual'') g0 = ((k1, s1), g1)"
    and c2: "compute_score rain1 vib1 blast1 50 (mode = ''Manual'') g1 = ((k2, s2), g2)"
    and c3: "compute_score rain2 vib2 blast2 45 (mode = ''Manual'') g2 = ((k3, s3), g3)"
    and c4: "compute_score rain2 vib2 blast2 60 (mode = ''Manual'') g3 = ((k4, s4), g4)"
    and rows: "rows =
      [\<lparr>Bench = ''Bench 1'', Slope = 35, Rainfall = rain1, Vibration = vib1, Blast = blast1,
         Score = round1 s1, Risk = k1\<rparr>,
       \<lparr>Bench = ''Bench 2'', Slope = 50, Rainfall = rain1, Vibration = vib1, Blast = blast1,
         Score = round1 s2, Risk = k2\<rparr>,
       \<lparr>Bench = ''Bench 3'', Slope = 45, Rainfall = rain2, Vibration = vib2, Blast = blast2,
         Score = round1 s3, Risk = k3\<rparr>,
       \<lparr>Bench = ''Bench 4'', Slope = 60, Rainfall = rain2, Vibration = vib2, Blast = blast2,
         Score = round1 s4, Risk = k4\<rparr>]"
    and h': "h' = append_history
      [(''rain1'', rain1), (''vib1'', vib1), (''blast1'', blast1),
       (''rain2'', rain2), (''vib2'', vib2), (''blast2'', blast2),
       (''Bench 1'', round1 s1), (''Bench 2'', round1 s2),
       (''Bench 3'', round1 s3), (''Bench 4'', round1 s4)] (history st)"
    and bz: "bench_zones rows (mode = ''Manual'') (static_furniture, g4) = Inr (m, g5)"
  shows "update_dashboard r1 v1 b1 r2 v2 b2 n show_dem mode st =
     Inr (\<lparr>env1_fig = \<lparr>title = ''Environmental Inputs - Group 1'',
             traces = [(''Rain'', map (\<lambda>r. map_of r ''rain1'') h'),
                       (''Vibration'', map (\<lambda>r. map_of r ''vib1'') h'),
                       (''Blast'', map (\<lambda>r. map_of r ''blast1'') h')]\<rparr>,
           env2_fig = \<lparr>title = ''Environmental Inputs - Group 2'',
             traces = [(''Rain'', map (\<lambda>r. map_of r ''rain2'') h'),
                       (''Vibration'', map (\<lambda>r. map_of r ''vib2'') h'),
                       (''Blast'', map (\<lambda>r. map_of r ''blast2'') h')]\<rparr>,
           bench_fig = \<lparr>title = ''Bench Risk Trend'',
             traces = [(''Bench 1'', map (\<lambda>r. map_of r ''Bench 1'') h'),
                       (''Bench 2'', map (\<lambda>r. map_of r ''Bench 2'') h'),
                       (''Bench 3'', map (\<lambda>r. map_of r ''Bench 3'') h'),
                       (''Bench 4'', map (\<lambda>r. map_of r ''Bench 4'') h')]\<rparr>,
           data = map (\<lambda>r. result_row.extend r \<lparr>Status = risk_icon (Risk r)\<rparr>) rows,
           columns = [(''Bench'', ''Bench''), (''Slope'', ''Slope''),
             (''Rainfall'', ''Rainfall''), (''Vibration'', ''Vibration''),
             (''Blast'', ''Blast''), (''Score'', ''Score''), (''Risk'', ''Risk''),
             (''Status'', ''Status'')],
           map_srcDoc = \<lparr>map_location = (23.172, 72.649), zoom_start = 14,
             tiles = ''CartoDB Positron'', items = m @ dem_items show_dem st\<rparr>\<rparr>,
          st\<lparr>history := h', rng := g5\<rparr>)"
proof -
  have sg: "score_groups [(groups ! 0, rain1, vib1, blast1), (groups ! 1, rain2, vib2, blast2)]
              (mode = ''Manual'') ([], g0) = Inr (rows, g4)"
    by (simp only: score_groups_catalog c1 c2 c3 c4 rows prod.case fst_conv snd_conv)
  have hr: "history_record rain1 vib1 blast1 rain2 vib2 blast2 rows =
      [(''rain1'', rain1), (''vib1'', vib1), (''blast1'', blast1),
       (''rain2'', rain2), (''vib2'', vib2), (''blast2'', blast2),
       (''Bench 1'', round1 s1), (''Bench 2'', round1 s2),
       (''Bench 3'', round1 s3), (''Bench 4'', round1 s4)]"
    unfolding rows by (rule history_record_catalog)
  have cf: "chart_figures h' = Inr (\<lparr>title = ''Environmental Inputs - Group 1'',
             traces = [(''Rain'', map (\<lambda>r. map_of r ''rain1'') h'),
                       (''Vibration'', map (\<lambda>r. map_of r ''vib1'') h'),
                       (''Blast'', map (\<lambda>r. map_of r ''blast1'') h')]\<rparr>,
           \<lparr>title = ''Environmental Inputs - Group 2'',
             traces = [(''Rain'', map (\<lambda>r. map_of r ''rain2'') h'),
                       (''Vibration'', map (\<lambda>r. map_of r ''vib2'') h'),
                       (''Blast'', map (\<lambda>r. map_of r ''blast2'') h')]\<rparr>,
           \<lparr>title = ''Bench Risk Trend'',
             traces = [(''Bench 1'', map (\<lambda>r. map_of r ''Bench 1'') h'),
                       (''Bench 2'', map (\<lambda>r. map_of r ''Bench 2'') h'),
                       (''Bench 3'', map (\<lambda>r. map_of r ''Bench 3'') h'),
                       (''Bench 4'', map (\<lambda>r. map_of r ''Bench 4'') h')]\<rparr>)"
    by (rule chart_figures_catalog [OF refl h'])
  have ne: "rows \<noteq> []" by (simp add: rows)
  show ?thesis
    unfolding update_dashboard_def Let_def rd prod.case sg sum.case hr
    unfolding h' [symmetric] cf sum.case prod.case results_table_rows [OF ne] bz
    by (rule refl)
qed

subsection \<open>The map layers\<close>

lemma layer_scores_det_rng: "snd (layer_scores ls r b True g) = g"
  by (induction ls arbitrary: g) (simp_all add: case_prod_beta compute_score_det_rng)

lemma next_bench_in_catalog:
  "bid \<in> set (map bench_id benches) \<Longrightarrow>
   \<exists>b. next_bench bid = Inr b \<and> b \<in> set benches \<and> bench_id b = bid"
  by (auto simp: next_bench_def benches_def)

lemma polygon_center_catalog:
  "b \<in> set benches \<Longrightarrow>
   polygon_center (bench_coords b) =
     Inr (sum_list (map fst (bench_coords b)) / real (length (bench_coords b)),
          sum_list (map snd (bench_coords b)) / real (length (bench_coords b)))"
  by (auto simp: polygon_center_def benches_def Let_def)

lemma bench_zones_total:
  "list_all (\<lambda>r. Bench r \<in> set (map bench_id benches)) rs \<Longrightarrow>
   \<exists>m' g'. bench_zones rs det (m, g) = Inr (m', g')"
proof (induction rs arbitrary: m g)
  case Nil
  then show ?case by simp
next
  case (Cons r rs)
  then obtain b where b: "next_bench (Bench r) = Inr b" "b \<in> set benches"
    using next_bench_in_catalog [of "Bench r"] by auto
  from Cons have "list_all (\<lambda>r. Bench r \<in> set (map bench_id benches)) rs" by simp
  from Cons.IH [OF this] show ?case
    by (simp add: b polygon_center_catalog [OF b(2)] case_prod_beta)
qed

lemma bench_zones_det_rng:
  "bench_zones rs True (m, g) = Inr (m', g') \<Longrightarrow> g' = g"
proof (induction rs arbitrary: m g)
  case Nil
  then show ?case by simp
next
  case (Cons r rs)
  then show ?case
    by (auto simp: case_prod_beta layer_scores_det_rng split: sum.splits)
qed

subsection \<open>One call of the callback\<close>

lemma row_extend_sel:
  "Bench (result_row.extend r x) = Bench r" "Slope (result_row.extend r x) = Slope r"
  "Rainfall (result_row.extend r x) = Rainfall r" "Vibration (result_row.extend r x) = Vibration r"
  "Blast (result_row.extend r x) = Blast r" "Score (result_row.extend r x) = Score r"
  "Risk (result_row.extend r x) = Risk r"
  by (simp_all add: result_row.defs)

lemma update_dashboard_result:
  assumes rd: "tick_readings mode r1 v1 b1 r2 v2 b2 (rng st)
                 = ((rain1, vib1, blast1, rain2, vib2, blast2), g0)"
    and c1: "compute_score rain1 vib1 blast1 35 (mode = ''Manual'') g0 = ((k1, s1), g1)"
    and c2: "compute_score rain1 vib1 blast1 50 (mode = ''Manual'') g1 = ((k2, s2), g2)"
    and c3: "compute_score rain2 vib2 blast2 45 (mode = ''Manual'') g2 = ((k3, s3), g3)"
    and c4: "compute_score rain2 vib2 blast2 60 (mode = ''Manual'') g3 = ((k4, s4), g4)"
    and rows: "rows =
      [\<lparr>Bench = ''Bench 1'', Slope = 35, Rainfall = rain1, Vibration = vib1, Blast = blast1,
         Score = round1 s1, Risk = k1\<rparr>,
       \<lparr>Bench = ''Bench 2'', Slope = 50, Rainfall = rain1, Vibration = vib1, Blast = blast1,
         Score = round1 s2, Risk = k2\<rparr>,
       \<lparr>Bench = ''Bench 3'', Slope = 45, Rainfall = rain2, Vibration = vib2, Blast = blast2,
         Score = round1 s3, Risk = k3\<rparr>,
       \<lparr>Bench = ''Bench 4'', Slope = 60, Rainfall = rain2, Vibration = vib2, Blast = blast2,
         Score = round1 s4, Risk = k4\<rparr>]"
    and h': "h' = append_history
      [(''rain1'', rain1), (''vib1'', vib1), (''blast1'', blast1),
       (''rain2'', rain2), (''vib2'', vib2), (''blast2'', blast2),
       (''Bench 1'', round1 s1), (''Bench 2'', round1 s2),
       (''Bench 3'', round1 s3), (''Bench 4'', round1 s4)] (history st)"
  shows "\<exists>out st' m g5.
     update_dashboard r1 v1 b1 r2 v2 b2 n show_dem mode st = Inr (out, st')
     \<and> bench_zones rows (mode = ''Manual'') (static_furniture, g4) = Inr (m, g5)
     \<and> data out = map (\<lambda>r. result_row.extend r \<lparr>Status = risk_icon (Risk r)\<rparr>) rows
     \<and> items (map_srcDoc out) = m @ dem_items show_dem st
     \<and> traces (bench_fig out) =
           [(''Bench 1'', map (\<lambda>r. map_of r ''Bench 1'') h'),
            (''Bench 2'', map (\<lambda>r. map_of r ''Bench 2'') h'),
            (''Bench 3'', map (\<lambda>r. map_of r ''Bench 3'') h'),
            (''Bench 4'', map (\<lambda>r. map_of r ''Bench 4'') h')]
     \<and> st' = st\<lparr>history := h', rng := g5\<rparr>"
proof -
  have "list_all (\<lambda>r. Bench r \<in> set (map bench_id benches)) rows"
    by (simp add: rows benches_def)
  from bench_zones_total [OF this, of "mode = ''Manual''" static_furniture g4]
  obtain m g5 where bz: "bench_zones rows (mode = ''Manual'') (static_furniture, g4) = Inr (m, g5)"
    by blast
  show ?thesis
    unfolding update_dashboard_eval [OF rd c1 c2 c3 c4 rows h' bz]
    using bz by simp
qed

lemma manual_readings:
  "tick_readings ''Manual'' r1 v1 b1 r2 v2 b2 g = ((r1, v1, b1, r2, v2, b2), g)"
  by (simp add: tick_readings_def)

lemma compute_score_manual:
  "fst (compute_score rain vib blast slope True g) = c \<Longrightarrow>
   compute_score rain vib blast slope (''Manual'' = ''Manual'') g = (c, g)"
  using compute_score_det_rng [of rain vib blast slope g]
  by (simp add: prod_eq_iff)

lemma update_dashboard_manual:
  assumes c1: "fst (compute_score rain1 vib1 blast1 35 True (rng st)) = (k1, s1)"
    and c2: "fst (compute_score rain1 vib1 blast1 50 True (rng st)) = (k2, s2)"
    and c3: "fst (compute_score rain2 vib2 blast2 45 True (rng st)) = (k3, s3)"
    and c4: "fst (compute_score rain2 vib2 blast2 60 True (rng st)) = (k4, s4)"
    and rows: "rows =
      [\<lparr>Bench = ''Bench 1'', Slope = 35, Rainfall = rain1, Vibration = vib1, Blast = blast1,
         Score = round1 s1, Risk = k1\<rparr>,
       \<lparr>Bench = ''Bench 2'', Slope = 50, Rainfall = rain1, Vibration = vib1, Blast = blast1,
         Score = round1 s2, Risk = k2\<rparr>,
       \<lparr>Bench = ''Bench 3'', Slope = 45, Rainfall = rain2, Vibration = vib2, Blast = blast2,
         Score = round1 s3, Risk = k3\<rparr>,
       \<lparr>Bench = ''Bench 4'', Slope = 60, Rainfall = rain2, Vibration = vib2, Blast = blast2,
         Score = round1 s4, Risk = k4\<rparr>]"
    and h': "h' = append_history
      [(''rain1'', rain1), (''vib1'', vib1), (''blast1'', blast1),
       (''rain2'', rain2), (''vib2'', vib2), (''blast2'', blast2),
       (''Bench 1'', round1 s1), (''Bench 2'', round1 s2),
       (''Bench 3'', round1 s3), (''Bench 4'', round1 s4)] (history st)"
  shows "\<exists>out m.
     update_dashboard rain1 vib1 blast1 rain2 vib2 blast2 n show_dem ''Manual'' st
       = Inr (out, st\<lparr>history := h'\<rparr>)
     \<and> bench_zones rows True (static_furniture, rng st) = Inr (m, rng st)
     \<and> data out = map (\<lambda>r. result_row.extend r \<lparr>Status = risk_icon (Risk r)\<rparr>) rows
     \<and> items (map_srcDoc out) = m @ dem_items show_dem st
     \<and> traces (bench_fig out) =
           [(''Bench 1'', map (\<lambda>r. map_of r ''Bench 1'') h'),
            (''Bench 2'', map (\<lambda>r. map_of r ''Bench 2'') h'),
            (''Bench 3'', map (\<lambda>r. map_of r ''Bench 3'') h'),
            (''Bench 4'', map (\<lambda>r. map_of r ''Bench 4'') h')]"
proof -
  from update_dashboard_result [OF manual_readings
      compute_score_manual [OF c1] compute_score_manual [OF c2]
      compute_score_manual [OF c3] compute_score_manual [OF c4] rows h', of n show_dem]
  obtain out st' m g5 where
    u: "update_dashboard rain1 vib1 blast1 rain2 vib2 blast2 n show_dem ''Manual'' st = Inr (out, st')"
    and bz: "bench_zones rows True (static_furniture, rng st) = Inr (m, g5)"
    and rest: "data out = map (\<lambda>r. result_row.extend r \<lparr>Status = risk_icon (Risk r)\<rparr>) rows"
      "items (map_srcDoc out) = m @ dem_items show_dem st"
      "traces (bench_fig out) =
           [(''Bench 1'', map (\<lambda>r. map_of r ''Bench 1'') h'),
            (''Bench 2'', map (\<lambda>r. map_of r ''Bench 2'') h'),
            (''Bench 3'', map (\<lambda>r. map_of r ''Bench 3'') h'),
            (''Bench 4'', map (\<lambda>r. map_of r ''Bench 4'') h')]"
    and st': "st' = st\<lparr>history := h', rng := g5\<rparr>"
    by auto
  from bz have g5: "g5 = rng st" by (rule bench_zones_det_rng)
  have "st' = st\<lparr>history := h'\<rparr>" by (simp add: st' g5)
  with u bz rest g5 show ?thesis by blast
qed

lemma append_history_length:
  "length h \<le> 200 \<Longrightarrow> length (append_history rec h) \<le> 200"
  by (simp add: append_history_def Let_def)

lemma append_history_full:
  "length h = 200 \<Longrightarrow> append_history rec h = tl h @ [rec]"
  by (cases h) (simp_all add: append_history_def Let_def)

lemma append_history_room:
  "length h < 200 \<Longrightarrow> append_history rec h = h @ [rec]"
  by (simp add: append_history_def Let_def)

lemma update_dashboard_total:
  "\<exists>out st' rec. update_dashboard r1 v1 b1 r2 v2 b2 n show_dem mode st = Inr (out, st')
      \<and> history st' = append_history rec (history st)"
proof -
  obtain rain1 vib1 blast1 rain2 vib2 blast2 g0 where
    rd: "tick_readings mode r1 v1 b1 r2 v2 b2 (rng st)
           = ((rain1, vib1, blast1, rain2, vib2, blast2), g0)"
    by (metis surj_pair)
  obtain k1 s1 g1 where
    c1: "compute_score rain1 vib1 blast1 35 (mode = ''Manual'') g0 = ((k1, s1), g1)"
    by (metis surj_pair)
  obtain k2 s2 g2 where
    c2: "compute_score rain1 vib1 blast1 50 (mode = ''Manual'') g1 = ((k2, s2), g2)"
    by (metis surj_pair)
  obtain k3 s3 g3 where
    c3: "compute_score rain2 vib2 blast2 45 (mode = ''Manual'') g2 = ((k3, s3), g3)"
    by (metis surj_pair)
  obtain k4 s4 g4 where
    c4: "compute_score rain2 vib2 blast2 60 (mode = ''Manual'') g3 = ((k4, s4), g4)"
    by (metis surj_pair)
  from update_dashboard_result [OF rd c1 c2 c3 c4 refl refl, of n show_dem]
  show ?thesis by auto
qed

lemma run_ticks_bounded:
  "length (history st0) \<le> 200 \<Longrightarrow>
   \<exists>st. run_ticks ticks st0 = Inr st \<and> length (history st) \<le> 200"
proof (induction ticks st0 rule: run_ticks.induct)
  case (1 st)
  then show ?case by simp
next
  case (2 r1 v1 b1 r2 v2 b2 n sd mode ts st)
  from update_dashboard_total [of r1 v1 b1 r2 v2 b2 n sd mode st]
  obtain out st' rec where
    u: "update_dashboard r1 v1 b1 r2 v2 b2 n sd mode st = Inr (out, st')"
    and h: "history st' = append_history rec (history st)"
    by blast
  from "2.prems" h have "length (history st') \<le> 200"
    by (simp add: append_history_length)
  from "2.IH" [OF u refl this] show ?case
    by (simp add: u)
qed

lemma append_history_unfold:
  "append_history rec h = (if length (h @ [rec]) > 200 then tl (h @ [rec]) else h @ [rec])"
  by (simp add: append_history_def Let_def)

lemma find_distinct_key:
  "distinct (map f xs) \<Longrightarrow> x \<in> set xs \<Longrightarrow> find (\<lambda>y. f y = f x) xs = Some x"
  by (induction xs) auto

lemma bench_ids_distinct: "distinct (map bench_id benches)"
  by (simp add: benches_def)

lemma next_bench_own: "b \<in> set benches \<Longrightarrow> next_bench (bench_id b) = Inr b"
  by (simp add: next_bench_def find_distinct_key [OF bench_ids_distinct])





lemma bench_zones_Cons:
  "bench_zones (r # rs) det (m, g) =
     (case bench_zones [r] det (m, g) of
        Inl e \<Rightarrow> Inl e
      | Inr acc \<Rightarrow> bench_zones rs det acc)"
  by (simp add: case_prod_beta split: sum.splits)

lemma bench_zone_one:
  assumes b: "b \<in> set benches" and r: "Bench r = bench_id b"
    and c0: "compute_score (Rainfall r) (Vibration r) (Blast r) (bench_slope b + 0 * 2) det g
               = ((k0, s0), g1)"
    and c1: "compute_score (Rainfall r) (Vibration r) (Blast r) (bench_slope b + 1 * 2) det g1
               = ((k1, s1), g2)"
    and c2: "compute_score (Rainfall r) (Vibration r) (Blast r) (bench_slope b + 2 * 2) det g2
               = ((k2, s2), g3)"
    and c: "c = (sum_list (map fst (bench_coords b)) / real (length (bench_coords b)),
                 sum_list (map snd (bench_coords b)) / real (length (bench_coords b)))"
  shows "bench_zones [r] det (m, g) =
     Inr (m @ [Circle c (30 * (0 + 1)) (risk_color k0) 0.5
                 (bench_id b @ '' - Layer 1: '' @ k0 @ '' ('' @ format_1f s0 @ '')''),
               Circle c (30 * (1 + 1)) (risk_color k1) 0.5
                 (bench_id b @ '' - Layer 2: '' @ k1 @ '' ('' @ format_1f s1 @ '')''),
               Circle c (30 * (2 + 1)) (risk_color k2) 0.5
                 (bench_id b @ '' - Layer 3: '' @ k2 @ '' ('' @ format_1f s2 @ '')''),
               Marker c (''<b>'' @ bench_id b @ ''</b>'')], g3)"
proof -
  have up: "[0..<3] = [0, 1, 2]" by (simp add: upt_rec)
  have nb: "next_bench (Bench r) = Inr b" unfolding r by (rule next_bench_own [OF b])
  have c0': "compute_score (Rainfall r) (Vibration r) (Blast r) (bench_slope b + real 0 * 2) det g
               = ((k0, s0), g1)" using c0 by simp
  have c1': "compute_score (Rainfall r) (Vibration r) (Blast r) (bench_slope b + real 1 * 2) det g1
               = ((k1, s1), g2)" using c1 by simp
  have c2': "compute_score (Rainfall r) (Vibration r) (Blast r) (bench_slope b + real 2 * 2) det g2
               = ((k2, s2), g3)" using c2 by simp
  have ls: "layer_scores [0..<3] r b det g = ([(0, k0, s0), (1, k1, s1), (2, k2, s2)], g3)"
    unfolding up layer_scores.simps c0' c1' c2' prod.case by (rule refl)
  have lc: "map (layer_circle b c) [(0, k0, s0), (1, k1, s1), (2, k2, s2)] =
     [Circle c (30 * (0 + 1)) (risk_color k0) 0.5
                 (bench_id b @ '' - Layer 1: '' @ k0 @ '' ('' @ format_1f s0 @ '')''),
               Circle c (30 * (1 + 1)) (risk_color k1) 0.5
                 (bench_id b @ '' - Layer 2: '' @ k1 @ '' ('' @ format_1f s1 @ '')''),
               Circle c (30 * (2 + 1)) (risk_color k2) 0.5
                 (bench_id b @ '' - Layer 3: '' @ k2 @ '' ('' @ format_1f s2 @ '')'')]"
    by (simp add: layer_circle_def)
  show ?thesis
    unfolding bench_zones.simps nb sum.case polygon_center_catalog [OF b] c [symmetric]
      ls prod.case lc
    by simp
qed

lemma data_frame_column:
  "rec \<in> set h \<Longrightarrow> map_of rec k \<noteq> None \<Longrightarrow>
   map_of (data_frame h) k = Some (map (\<lambda>rec. map_of rec k) h)"
proof -
  assume a: "rec \<in> set h" "map_of rec k \<noteq> None"
  then have "k \<in> fst ` set rec" by (simp add: map_of_eq_None_iff)
  with a(1) have "k \<in> set (frame_columns h)"
    by (auto simp: frame_columns_def)
  then show ?thesis
    by (simp add: data_frame_def map_of_map_restrict)
qed

lemma append_history_last_eq: "last (append_history rec h) = rec"
  by (cases h) (simp_all add: append_history_def Let_def last_tl)

lemma append_history_nonempty: "append_history rec h \<noteq> []"
  using append_history_last [of rec h] by auto

lemma layer_scores_Score:
  "layer_scores ls (r\<lparr>Score := x\<rparr>) b det g = layer_scores ls r b det g"
  by (induction ls arbitrary: g) simp_all

lemma round_half_even_bounds:
  "\<bar>real_of_int (round_half_even x) - x\<bar> \<le> 1 / 2"
proof -
  have "of_int \<lfloor>x\<rfloor> \<le> x" "x < of_int \<lfloor>x\<rfloor> + 1" by linarith+
  then show ?thesis
    by (auto simp: round_half_even_def Let_def)
qed

lemma round1_spec:
  "\<bar>round1 x - x\<bar> \<le> 1 / 20 \<and> (\<exists>n::int. round1 x = of_int n / 10)"
proof -
  have "\<bar>real_of_int (round_half_even (x * 10)) - x * 10\<bar> \<le> 1 / 2"
    by (rule round_half_even_bounds)
  then have "\<bar>round1 x - x\<bar> \<le> 1 / 20"
    unfolding round1_def by (simp add: field_simps abs_le_iff)
  moreover have "\<exists>n::int. round1 x = of_int n / 10"
    unfolding round1_def by blast
  ultimately show ?thesis by blast
qed

subsection \<open>Evaluation on the example states\<close>

lemma random_unit_half: "random_unit (half_source k) = (1 / 2, half_source (Suc k))"
  by (simp add: random_unit_def half_source_def)

lemma uniform_half: "uniform a b (half_source k) = (a + (b - a) / 2, half_source (Suc k))"
  by (simp add: uniform_def random_unit_half)

lemma randint_half:
  "randint a b (half_source k) = (of_int (a + \<lfloor>of_int (b - a + 1) / (2::real)\<rfloor>), half_source (Suc k))"
  by (simp add: randint_def random_unit_half)

lemma auto_readings_half:
  "auto_readings (half_source 0) = ((100, 5, 3, 100, 5, 3), half_source 6)"
  by (simp add: auto_readings_def randint_half uniform_half round1_def round_half_even_def
      eval_nat_numeral)

lemma compute_score_half:
  "compute_score 100 5 3 35 False (half_source 6) = ((''High'', 125.25), half_source 8)"
  "compute_score 100 5 3 50 False (half_source 8) = ((''High'', 132.75), half_source 10)"
  "compute_score 100 5 3 45 False (half_source 10) = ((''High'', 130.25), half_source 12)"
  "compute_score 100 5 3 60 False (half_source 12) = ((''High'', 137.75), half_source 14)"
  by (simp_all add: compute_score_def uniform_half eval_nat_numeral)

lemma round1_half:
  "round1 125.25 = 125.2" "round1 132.75 = 132.8" "round1 130.25 = 130.2"
  "round1 137.75 = 137.8"
  by (simp_all add: round1_def round_half_even_def)

lemma format_1f_half_examples:
  "format_1f 125.25 = ''125.2''" "format_1f 126.25 = ''126.2''" "format_1f 127.25 = ''127.2''"
  by (simp_all add: format_1f_def round_half_even_def Let_def)

lemma history_update_sel: "history (st\<lparr>history := h\<rparr>) = h"
  by simp

subsection \<open>Rounding to a double\<close>






















section \<open>The scorer\<close>

text \<open>
  Claim C1. With \<open>deterministic\<close> set, the score is
  \<open>slope/2 + rainfall*0.4 + (vibration + blast*2.0)*5 + blast*3\<close>: the multiplier is 2.0
  and the noise 0. Without it the same formula holds with a multiplier \<open>m\<close> and a noise
  term that are the next two values \<^verbatim>\<open>random.uniform(1.5, 3.0)\<close> and
  \<^verbatim>\<open>random.uniform(-5, 5)\<close> of the random source, so \<open>1.5 \<le> m \<le> 3.0\<close> and
  \<open>-5 \<le> noise \<le> 5\<close>.
\<close>

theorem compute_score_formula:
  "snd (fst (compute_score rain vib blast slope True g))
     = slope / 2 + rain * 0.4 + (vib + blast * 2.0) * 5 + blast * 3
   \<and> (\<exists>m noise.
         m = fst (uniform 1.5 3.0 g) \<and> noise = fst (uniform (- 5) 5 (snd (uniform 1.5 3.0 g)))
         \<and> 1.5 \<le> m \<and> m \<le> 3.0 \<and> - 5 \<le> noise \<and> noise \<le> 5
         \<and> snd (fst (compute_score rain vib blast slope False g))
             = slope / 2 + rain * 0.4 + (vib + blast * m) * 5 + blast * 3 + noise)"
proof -
  have "snd (fst (compute_score rain vib blast slope True g))
     = slope / 2 + rain * 0.4 + (vib + blast * 2.0) * 5 + blast * 3"
    by (simp add: compute_score_def Let_def)
  moreover have "snd (fst (compute_score rain vib blast slope False g))
             = slope / 2 + rain * 0.4 + (vib + blast * fst (uniform 1.5 3.0 g)) * 5 + blast * 3 
               + fst (uniform (- 5) 5 (snd (uniform 1.5 3.0 g)))"
    by (simp add: compute_score_def Let_def split: prod.splits)
  moreover have "1.5 \<le> fst (uniform 1.5 3.0 g) \<and> fst (uniform 1.5 3.0 g) \<le> 3.0"
    by (rule uniform_range) simp
  moreover have "- 5 \<le> fst (uniform (- 5) 5 (snd (uniform 1.5 3.0 g))) \<and> fst (uniform (- 5) 5 (snd (uniform 1.5 3.0 g))) \<le> 5"
    by (rule uniform_range) simp
  ultimately show ?thesis by blast
qed

text \<open>
  Claim C2. Whatever the scorer returns, the classification is \<open>Low\<close> exactly when the
  score is below 40, \<open>Medium\<close> exactly when it is at least 40 and below 70, and \<open>High\<close>
  exactly when it is at least 70; it is always one of the three. So the ranges neither
  overlap nor leave a gap, 40 is \<open>Medium\<close> and 70 is \<open>High\<close>.
\<close>

theorem classification_thresholds:
  assumes "compute_score rain vib blast slope deterministic g = ((risk, s), g')"
  shows "(risk = ''Low'' \<longleftrightarrow> s < 40)
       \<and> (risk = ''Medium'' \<longleftrightarrow> 40 \<le> s \<and> s < 70)
       \<and> (risk = ''High'' \<longleftrightarrow> 70 \<le> s)
       \<and> (risk = ''Low'' \<or> risk = ''Medium'' \<or> risk = ''High'')"
  using assms
  by (auto simp: compute_score_def Let_def split: prod.splits if_splits)

text \<open>The boundary scores 40 and 70 are reached (slope 80 and slope 140, no rain, no vibration).\<close>

theorem classification_thresholds_witness:
  "compute_score 0 0 0 80 True \<lparr>outputs = \<lambda>_. 0, consumed = 0\<rparr>
     = ((''Medium'', 40), \<lparr>outputs = \<lambda>_. 0, consumed = 0\<rparr>)
   \<and> compute_score 0 0 0 140 True \<lparr>outputs = \<lambda>_. 0, consumed = 0\<rparr>
     = ((''High'', 70), \<lparr>outputs = \<lambda>_. 0, consumed = 0\<rparr>)
   \<and> (''Medium'' = ''Medium'' \<longleftrightarrow> (40::real) \<le> 40 \<and> (40::real) < 70)
   \<and> (''High'' = ''High'' \<longleftrightarrow> (70::real) \<le> 70)"
proof -
  have a: "compute_score 0 0 0 80 True \<lparr>outputs = \<lambda>_. 0, consumed = 0\<rparr>
     = ((''Medium'', 40), \<lparr>outputs = \<lambda>_. 0, consumed = 0\<rparr>)"
    by (simp add: compute_score_def)
  have b: "compute_score 0 0 0 140 True \<lparr>outputs = \<lambda>_. 0, consumed = 0\<rparr>
     = ((''High'', 70), \<lparr>outputs = \<lambda>_. 0, consumed = 0\<rparr>)"
    by (simp add: compute_score_def)
  show ?thesis
    using a b classification_thresholds [OF a] classification_thresholds [OF b] by simp
qed

text \<open>
  Claim C3. With \<open>deterministic\<close> set, the classification and the score do not depend on
  the random source, and the call returns the random source as it received it: no value is
  drawn. A call of \<^verbatim>\<open>update_dashboard\<close> in mode \<open>Manual\<close> completes and leaves the random
  source unchanged.
\<close>

theorem deterministic_scorer_pure:
  "fst (compute_score rain vib blast slope True g) = fst (compute_score rain vib blast slope True g')
   \<and> snd (compute_score rain vib blast slope True g) = g
   \<and> (\<exists>out st'. update_dashboard rain1 vib1 blast1 rain2 vib2 blast2 n show_dem ''Manual'' st
                    = Inr (out, st') \<and> rng st' = rng st)"
proof (intro conjI)
  show "fst (compute_score rain vib blast slope True g)
          = fst (compute_score rain vib blast slope True g')"
    by (rule compute_score_det_indep)
  show "snd (compute_score rain vib blast slope True g) = g"
    by (rule compute_score_det_rng)
  from update_dashboard_manual [where ?rain1.0 = rain1 and ?vib1.0 = vib1 and ?blast1.0 = blast1
      and ?rain2.0 = rain2 and ?vib2.0 = vib2 and ?blast2.0 = blast2 and st = st and n = n
      and show_dem = show_dem,
      OF surjective_pairing surjective_pairing surjective_pairing surjective_pairing refl refl]
  obtain out h' where
    "update_dashboard rain1 vib1 blast1 rain2 vib2 blast2 n show_dem ''Manual'' st
       = Inr (out, st\<lparr>history := h'\<rparr>)"
    by blast
  then show "\<exists>out st'. update_dashboard rain1 vib1 blast1 rain2 vib2 blast2 n show_dem ''Manual'' st
                    = Inr (out, st') \<and> rng st' = rng st"
    by simp
qed

section \<open>The evaluation cycle\<close>

text \<open>
  Claim C5. In Manual mode the reading (10, 1, 0) of group 1 gives Bench 1 (slope 35) the
  score 26.5 and the class \<open>Low\<close>; the reading (200, 10, 5) of group 2 gives Bench 4
  (slope 60) the score 225 and the class \<open>High\<close>. Both hold for the scorer alone and for
  the rows of the table that the callback returns.
\<close>

theorem end_to_end_examples:
  "fst (compute_score 10 1 0 35 True g) = (''Low'', 26.5)
   \<and> fst (compute_score 200 10 5 60 True g) = (''High'', 225)
   \<and> (\<exists>out st'. update_dashboard 10 1 0 rain2 vib2 blast2 n show_dem ''Manual'' st
                    = Inr (out, st')
          \<and> Bench (data out ! 0) = ''Bench 1'' \<and> Slope (data out ! 0) = 35
          \<and> Score (data out ! 0) = 26.5 \<and> Risk (data out ! 0) = ''Low'')
   \<and> (\<exists>out st'. update_dashboard rain1 vib1 blast1 200 10 5 n show_dem ''Manual'' st
                    = Inr (out, st')
          \<and> Bench (data out ! 3) = ''Bench 4'' \<and> Slope (data out ! 3) = 60
          \<and> Score (data out ! 3) = 225 \<and> Risk (data out ! 3) = ''High'')"
proof (intro conjI)
  show a: "fst (compute_score 10 1 0 35 True g) = (''Low'', 26.5)" for g
    by (simp add: compute_score_def)
  show b: "fst (compute_score 200 10 5 60 True g) = (''High'', 225)" for g
    by (simp add: compute_score_def)
  have r1: "round1 26.5 = 26.5" by (simp add: round1_def round_half_even_def)
  have r2: "round1 225 = 225" by (simp add: round1_def round_half_even_def)
  show "\<exists>out st'. update_dashboard 10 1 0 rain2 vib2 blast2 n show_dem ''Manual'' st
                    = Inr (out, st')
          \<and> Bench (data out ! 0) = ''Bench 1'' \<and> Slope (data out ! 0) = 35
          \<and> Score (data out ! 0) = 26.5 \<and> Risk (data out ! 0) = ''Low''"
  proof -
    from update_dashboard_manual [where ?rain2.0 = rain2 and ?vib2.0 = vib2
        and ?blast2.0 = blast2 and st = st and n = n and show_dem = show_dem,
        OF a surjective_pairing surjective_pairing surjective_pairing refl refl]
    obtain out st' rest where
      u: "update_dashboard 10 1 0 rain2 vib2 blast2 n show_dem ''Manual'' st = Inr (out, st')"
      and d: "data out = map (\<lambda>r. result_row.extend r \<lparr>Status = risk_icon (Risk r)\<rparr>)
           (\<lparr>Bench = ''Bench 1'', Slope = 35, Rainfall = 10, Vibration = 1, Blast = 0,
              Score = round1 26.5, Risk = ''Low''\<rparr> # rest)"
      by blast
    have "Bench (data out ! 0) = ''Bench 1''" "Slope (data out ! 0) = 35"
      "Score (data out ! 0) = round1 26.5" "Risk (data out ! 0) = ''Low''"
      by (simp_all add: d row_extend_sel)
    with u show ?thesis unfolding r1 by blast
  qed
  show "\<exists>out st'. update_dashboard rain1 vib1 blast1 200 10 5 n show_dem ''Manual'' st
                    = Inr (out, st')
          \<and> Bench (data out ! 3) = ''Bench 4'' \<and> Slope (data out ! 3) = 60
          \<and> Score (data out ! 3) = 225 \<and> Risk (data out ! 3) = ''High''"
  proof -
    from update_dashboard_manual [where ?rain1.0 = rain1 and ?vib1.0 = vib1
        and ?blast1.0 = blast1 and st = st and n = n and show_dem = show_dem,
        OF surjective_pairing surjective_pairing surjective_pairing b refl refl]
    obtain out st' ra rb rc where
      u: "update_dashboard rain1 vib1 blast1 200 10 5 n show_dem ''Manual'' st = Inr (out, st')"
      and d: "data out = map (\<lambda>r. result_row.extend r \<lparr>Status = risk_icon (Risk r)\<rparr>)
           [ra, rb, rc,
            \<lparr>Bench = ''Bench 4'', Slope = 60, Rainfall = 200, Vibration = 10, Blast = 5,
              Score = round1 225, Risk = ''High''\<rparr>]"
      by blast
    have "Bench (data out ! 3) = ''Bench 4''" "Slope (data out ! 3) = 60"
      "Score (data out ! 3) = round1 225" "Risk (data out ! 3) = ''High''"
      by (simp_all add: d row_extend_sel)
    with u show ?thesis unfolding r2 by blast
  qed
qed

section \<open>The history buffer\<close>

text \<open>
  Claim C4. From a state whose buffer holds at most 200 records (the empty buffer of a
  fresh process is one), every run of the callback completes in a state whose buffer holds
  at most 200 records. In such a state every further call completes, again with at most
  200 records: it appends one record at the end when fewer than 200 are held, and when 200
  are held it drops the first (oldest) record and appends the new one, so that the buffer
  is then the records 2 to 200 in their order followed by the new one.
\<close>

theorem history_buffer_bounded:
  assumes "length (history st0) \<le> 200"
  shows "\<exists>st. run_ticks ticks st0 = Inr st \<and> length (history st) \<le> 200
     \<and> (\<forall>r1 v1 b1 r2 v2 b2 n show_dem mode.
          \<exists>out st' rec.
            update_dashboard r1 v1 b1 r2 v2 b2 n show_dem mode st = Inr (out, st')
            \<and> length (history st') \<le> 200
            \<and> history st' = (if length (history st) = 200 then tl (history st) @ [rec]
                              else history st @ [rec]))"
proof -
  from run_ticks_bounded [OF assms, of ticks]
  obtain st where st: "run_ticks ticks st0 = Inr st" "length (history st) \<le> 200"
    by blast
  have "\<exists>out st' rec.
            update_dashboard r1 v1 b1 r2 v2 b2 n show_dem mode st = Inr (out, st')
            \<and> length (history st') \<le> 200
            \<and> history st' = (if length (history st) = 200 then tl (history st) @ [rec]
                              else history st @ [rec])"
    for r1 v1 b1 r2 v2 b2 n show_dem mode
  proof -
    from update_dashboard_total [of r1 v1 b1 r2 v2 b2 n show_dem mode st]
    obtain out st' rec where
      u: "update_dashboard r1 v1 b1 r2 v2 b2 n show_dem mode st = Inr (out, st')"
      and h: "history st' = append_history rec (history st)"
      by blast
    have "length (history st') \<le> 200"
      using st(2) h by (simp add: append_history_length)
    moreover have "history st' = (if length (history st) = 200 then tl (history st) @ [rec]
                              else history st @ [rec])"
      using st(2) h by (simp add: append_history_full append_history_room)
    ultimately show ?thesis using u by blast
  qed
  with st show ?thesis by blast
qed

text \<open>
  A buffer holding the records numbered 1 to 200: after one more call it holds the records
  2 to 200 and then the record of that call.
\<close>

theorem history_buffer_bounded_witness:
  "length (history \<lparr>history = map (\<lambda>i. [(''rain1'', real i)]) [1..<201],
                     rng = \<lparr>outputs = \<lambda>_. 0, consumed = 0\<rparr>,
                     dem_overlay_path = None, dem_bounds = None\<rparr>) \<le> 200
   \<and> (\<exists>out st'.
         update_dashboard 10 1 0 10 1 0 0 False ''Manual''
           \<lparr>history = map (\<lambda>i. [(''rain1'', real i)]) [1..<201],
            rng = \<lparr>outputs = \<lambda>_. 0, consumed = 0\<rparr>,
            dem_overlay_path = None, dem_bounds = None\<rparr> = Inr (out, st')
         \<and> length (history st') \<le> 200
         \<and> history st' =
             map (\<lambda>i. [(''rain1'', real i)]) [2..<201]
               @ [[(''rain1'', 10), (''vib1'', 1), (''blast1'', 0),
                   (''rain2'', 10), (''vib2'', 1), (''blast2'', 0),
                   (''Bench 1'', 26.5), (''Bench 2'', 34),
                   (''Bench 3'', 31.5), (''Bench 4'', 39)]])"
proof -
  define st where "st = \<lparr>history = map (\<lambda>i. [(''rain1'', real i)]) [1..<201],
                     rng = \<lparr>outputs = \<lambda>_. 0, consumed = 0\<rparr>,
                     dem_overlay_path = None, dem_bounds = None\<rparr>"
  have hist: "history st = map (\<lambda>i. [(''rain1'', real i)]) [1..<201]"
    unfolding st_def by (rule app_state.select_convs)
  have len200: "length (history st) = 200"
    unfolding hist by (simp only: length_map length_upt) 
  then have len: "length (history st) \<le> 200" by simp
  have tl: "tl (history st) = map (\<lambda>i. [(''rain1'', real i)]) [2..<201]"
    unfolding hist by (simp only: map_tl [symmetric] tl_upt Suc_1)
  have c1: "fst (compute_score 10 1 0 35 True (rng st)) = (''Low'', 26.5)"
    by (simp add: compute_score_def)
  have c2: "fst (compute_score 10 1 0 50 True (rng st)) = (''Low'', 34)"
    by (simp add: compute_score_def)
  have c3: "fst (compute_score 10 1 0 45 True (rng st)) = (''Low'', 31.5)"
    by (simp add: compute_score_def)
  have c4: "fst (compute_score 10 1 0 60 True (rng st)) = (''Low'', 39)"
    by (simp add: compute_score_def)
  have r: "round1 26.5 = 26.5" "round1 34 = 34" "round1 31.5 = 31.5" "round1 39 = 39"
    by (simp_all add: round1_def round_half_even_def)
  from update_dashboard_manual [OF c1 c2 c3 c4 refl refl, of 0 False]
  obtain out where
    u: "update_dashboard 10 1 0 10 1 0 0 False ''Manual'' st
          = Inr (out, st\<lparr>history := append_history
              [(''rain1'', 10), (''vib1'', 1), (''blast1'', 0),
               (''rain2'', 10), (''vib2'', 1), (''blast2'', 0),
               (''Bench 1'', round1 26.5), (''Bench 2'', round1 34),
               (''Bench 3'', round1 31.5), (''Bench 4'', round1 39)] (history st)\<rparr>)"
    by blast
  define st' where "st' = st\<lparr>history := append_history
              [(''rain1'', 10), (''vib1'', 1), (''blast1'', 0),
               (''rain2'', 10), (''vib2'', 1), (''blast2'', 0),
               (''Bench 1'', round1 26.5), (''Bench 2'', round1 34),
               (''Bench 3'', round1 31.5), (''Bench 4'', round1 39)] (history st)\<rparr>"
  have u': "update_dashboard 10 1 0 10 1 0 0 False ''Manual'' st = Inr (out, st')"
    unfolding st'_def by (rule u)
  have h': "history st' = map (\<lambda>i. [(''rain1'', real i)]) [2..<201]
               @ [[(''rain1'', 10), (''vib1'', 1), (''blast1'', 0),
                   (''rain2'', 10), (''vib2'', 1), (''blast2'', 0),
                   (''Bench 1'', 26.5), (''Bench 2'', 34),
                   (''Bench 3'', 31.5), (''Bench 4'', 39)]]"
    unfolding st'_def append_history_full [OF len200] tl r by (rule history_update_sel)
  from history_buffer_bounded [OF len, of "[]"]
  have "\<exists>out2 st2 rec. update_dashboard 10 1 0 10 1 0 0 False ''Manual'' st = Inr (out2, st2)
          \<and> length (history st2) \<le> 200
          \<and> history st2 = (if length (history st) = 200 then tl (history st) @ [rec]
                            else history st @ [rec])"
    by simp
  then have l': "length (history st') \<le> 200"
    unfolding u' by blast
  have main: "length (history st) \<le> 200
     \<and> (\<exists>out st'.
         update_dashboard 10 1 0 10 1 0 0 False ''Manual'' st = Inr (out, st')
         \<and> length (history st') \<le> 200
         \<and> history st' =
             map (\<lambda>i. [(''rain1'', real i)]) [2..<201]
               @ [[(''rain1'', 10), (''vib1'', 1), (''blast1'', 0),
                   (''rain2'', 10), (''vib2'', 1), (''blast2'', 0),
                   (''Bench 1'', 26.5), (''Bench 2'', 34),
                   (''Bench 3'', 31.5), (''Bench 4'', 39)]])"
    using len u' l' h' by blast
  show ?thesis by (rule main [unfolded st_def])
qed

section \<open>The results of one tick\<close>

text \<open>
  Claim C7. Name the readings of the tick (the arguments, or in Auto mode the six values
  drawn) and the four results of the scorer, called in this order on the reading of group 1
  with slope 35 and 50 and on the reading of group 2 with slope 45 and 60, each call
  taking the random source the previous one returned. Then the callback completes; its
  table has exactly one row per bench of the catalog, in the order of the groups and of
  the benches inside each group (Bench 1, Bench 2, Bench 3, Bench 4), each row with the
  slope of its bench, the reading of its group, and the class and rounded score of its
  scorer call; and the history after the call is the history before it with exactly one
  record appended (and the oldest dropped when that makes 201).
\<close>

theorem tick_results:
  assumes rd: "tick_readings mode r1 v1 b1 r2 v2 b2 (rng st)
                 = ((rain1, vib1, blast1, rain2, vib2, blast2), g0)"
    and c1: "compute_score rain1 vib1 blast1 35 (mode = ''Manual'') g0 = ((k1, s1), g1)"
    and c2: "compute_score rain1 vib1 blast1 50 (mode = ''Manual'') g1 = ((k2, s2), g2)"
    and c3: "compute_score rain2 vib2 blast2 45 (mode = ''Manual'') g2 = ((k3, s3), g3)"
    and c4: "compute_score rain2 vib2 blast2 60 (mode = ''Manual'') g3 = ((k4, s4), g4)"
  shows "\<exists>out st' rec.
     update_dashboard r1 v1 b1 r2 v2 b2 n show_dem mode st = Inr (out, st')
     \<and> map (\<lambda>r. (Bench r, Slope r, Rainfall r, Vibration r, Blast r, Score r, Risk r)) (data out)
         = [(''Bench 1'', 35, rain1, vib1, blast1, round1 s1, k1),
            (''Bench 2'', 50, rain1, vib1, blast1, round1 s2, k2),
            (''Bench 3'', 45, rain2, vib2, blast2, round1 s3, k3),
            (''Bench 4'', 60, rain2, vib2, blast2, round1 s4, k4)]
     \<and> map Bench (data out) = concat (map group_benches groups)
     \<and> map Bench (data out) = map bench_id benches
     \<and> map Slope (data out) = map bench_slope benches
     \<and> history st' = (if length (history st @ [rec]) > 200 then tl (history st @ [rec])
                       else history st @ [rec])"
proof -
  from update_dashboard_result [OF rd c1 c2 c3 c4 refl refl, of n show_dem]
  obtain out st' m g5 where
    u: "update_dashboard r1 v1 b1 r2 v2 b2 n show_dem mode st = Inr (out, st')"
    and d: "data out = map (\<lambda>r. result_row.extend r \<lparr>Status = risk_icon (Risk r)\<rparr>)
      [\<lparr>Bench = ''Bench 1'', Slope = 35, Rainfall = rain1, Vibration = vib1, Blast = blast1,
         Score = round1 s1, Risk = k1\<rparr>,
       \<lparr>Bench = ''Bench 2'', Slope = 50, Rainfall = rain1, Vibration = vib1, Blast = blast1,
         Score = round1 s2, Risk = k2\<rparr>,
       \<lparr>Bench = ''Bench 3'', Slope = 45, Rainfall = rain2, Vibration = vib2, Blast = blast2,
         Score = round1 s3, Risk = k3\<rparr>,
       \<lparr>Bench = ''Bench 4'', Slope = 60, Rainfall = rain2, Vibration = vib2, Blast = blast2,
         Score = round1 s4, Risk = k4\<rparr>]"
    and st': "st' = st\<lparr>history := append_history
      [(''rain1'', rain1), (''vib1'', vib1), (''blast1'', blast1),
       (''rain2'', rain2), (''vib2'', vib2), (''blast2'', blast2),
       (''Bench 1'', round1 s1), (''Bench 2'', round1 s2),
       (''Bench 3'', round1 s3), (''Bench 4'', round1 s4)] (history st), rng := g5\<rparr>"
    by blast
  have a: "map (\<lambda>r. (Bench r, Slope r, Rainfall r, Vibration r, Blast r, Score r, Risk r)) (data out)
         = [(''Bench 1'', 35, rain1, vib1, blast1, round1 s1, k1),
            (''Bench 2'', 50, rain1, vib1, blast1, round1 s2, k2),
            (''Bench 3'', 45, rain2, vib2, blast2, round1 s3, k3),
            (''Bench 4'', 60, rain2, vib2, blast2, round1 s4, k4)]"
    by (simp add: d row_extend_sel)
  have b: "map Bench (data out) = concat (map group_benches groups)"
    by (simp add: d row_extend_sel groups_def)
  have c: "map Bench (data out) = map bench_id benches"
    by (simp add: d row_extend_sel benches_def)
  have e: "map Slope (data out) = map bench_slope benches"
    by (simp add: d row_extend_sel benches_def)
  have h: "history st' = append_history
      [(''rain1'', rain1), (''vib1'', vib1), (''blast1'', blast1),
       (''rain2'', rain2), (''vib2'', vib2), (''blast2'', blast2),
       (''Bench 1'', round1 s1), (''Bench 2'', round1 s2),
       (''Bench 3'', round1 s3), (''Bench 4'', round1 s4)] (history st)"
    by (simp add: st')
  show ?thesis
    apply (intro exI conjI)
         apply (rule u)
        apply (rule a)
       apply (rule b)
      apply (rule c)
     apply (rule e)
    apply (rule h [unfolded append_history_unfold])
    done
qed

text \<open>A call in Auto mode on a fresh state, every raw draw being \<open>1/2\<close>.\<close>

theorem tick_results_witness:
  "tick_readings ''Auto'' 0 0 0 0 0 0 (rng (fresh_state (half_source 0)))
     = ((100, 5, 3, 100, 5, 3), half_source 6)
   \<and> compute_score 100 5 3 35 (''Auto'' = ''Manual'') (half_source 6)
       = ((''High'', 125.25), half_source 8)
   \<and> compute_score 100 5 3 50 (''Auto'' = ''Manual'') (half_source 8)
       = ((''High'', 132.75), half_source 10)
   \<and> compute_score 100 5 3 45 (''Auto'' = ''Manual'') (half_source 10)
       = ((''High'', 130.25), half_source 12)
   \<and> compute_score 100 5 3 60 (''Auto'' = ''Manual'') (half_source 12)
       = ((''High'', 137.75), half_source 14)
   \<and> (\<exists>out st'.
         update_dashboard 0 0 0 0 0 0 0 False ''Auto'' (fresh_state (half_source 0))
           = Inr (out, st')
         \<and> map (\<lambda>r. (Bench r, Slope r, Rainfall r, Vibration r, Blast r, Score r, Risk r))
               (data out)
             = [(''Bench 1'', 35, 100, 5, 3, 125.2, ''High''),
                (''Bench 2'', 50, 100, 5, 3, 132.8, ''High''),
                (''Bench 3'', 45, 100, 5, 3, 130.2, ''High''),
                (''Bench 4'', 60, 100, 5, 3, 137.8, ''High'')]
         \<and> length (history st') = 1)"
proof -
  have rd: "tick_readings ''Auto'' 0 0 0 0 0 0 (rng (fresh_state (half_source 0)))
     = ((100, 5, 3, 100, 5, 3), half_source 6)"
    by (simp add: tick_readings_def fresh_state_def auto_readings_half)
  have c: "compute_score 100 5 3 35 (''Auto'' = ''Manual'') (half_source 6)
       = ((''High'', 125.25), half_source 8)"
    "compute_score 100 5 3 50 (''Auto'' = ''Manual'') (half_source 8)
       = ((''High'', 132.75), half_source 10)"
    "compute_score 100 5 3 45 (''Auto'' = ''Manual'') (half_source 10)
       = ((''High'', 130.25), half_source 12)"
    "compute_score 100 5 3 60 (''Auto'' = ''Manual'') (half_source 12)
       = ((''High'', 137.75), half_source 14)"
    using compute_score_half by simp_all
  from tick_results [OF rd c, of 0 False]
  obtain out st' rec where
    u: "update_dashboard 0 0 0 0 0 0 0 False ''Auto'' (fresh_state (half_source 0))
           = Inr (out, st')"
    and d: "map (\<lambda>r. (Bench r, Slope r, Rainfall r, Vibration r, Blast r, Score r, Risk r))
               (data out)
             = [(''Bench 1'', 35, 100, 5, 3, round1 125.25, ''High''),
                (''Bench 2'', 50, 100, 5, 3, round1 132.75, ''High''),
                (''Bench 3'', 45, 100, 5, 3, round1 130.25, ''High''),
                (''Bench 4'', 60, 100, 5, 3, round1 137.75, ''High'')]"
    and h: "history st' =
        (if length (history (fresh_state (half_source 0)) @ [rec]) > 200
         then tl (history (fresh_state (half_source 0)) @ [rec])
         else history (fresh_state (half_source 0)) @ [rec])"
    by (elim exE conjE) (rule that; assumption)
  from h have l: "length (history st') = 1"
    by (simp add: fresh_state_def)
  have "\<exists>out st'.
         update_dashboard 0 0 0 0 0 0 0 False ''Auto'' (fresh_state (half_source 0))
           = Inr (out, st')
         \<and> map (\<lambda>r. (Bench r, Slope r, Rainfall r, Vibration r, Blast r, Score r, Risk r))
               (data out)
             = [(''Bench 1'', 35, 100, 5, 3, 125.2, ''High''),
                (''Bench 2'', 50, 100, 5, 3, 132.8, ''High''),
                (''Bench 3'', 45, 100, 5, 3, 130.2, ''High''),
                (''Bench 4'', 60, 100, 5, 3, 137.8, ''High'')]
         \<and> length (history st') = 1"
    using u d [unfolded round1_half] l by (intro exI conjI)
  with rd c show ?thesis by (intro conjI)
qed

section \<open>The map layers\<close>




text \<open>
  Claim C6. Take a bench of the catalog, a row of that bench, and name the three results
  of the scorer called on the reading fields of the row with the slope of the bench plus
  \<open>0*2\<close>, \<open>1*2\<close> and \<open>2*2\<close>, each call taking the random source the previous one
  returned. Then the builder, run on that row, adds to the map three circles and the label
  of the bench; the circle of layer index \<open>i\<close> has the radius \<open>30 * (i + 1)\<close>, its centre
  is the arithmetic mean of the vertex coordinates of the polygon of the bench, and its
  colour and tooltip are those of the class and score of the \<open>i\<close>-th call. On a list of
  rows the builder treats the rows one after the other. In \<^verbatim>\<open>update_dashboard\<close> the
  builder is run on the rows of the scoring loop, which carry the reading of their group,
  with the same deterministic flag as the scoring loop, and its result is what the map
  shows.
\<close>

theorem geo_layer_circles:
  assumes b: "b \<in> set benches" and r: "Bench r = bench_id b"
    and c0: "compute_score (Rainfall r) (Vibration r) (Blast r) (bench_slope b + 0 * 2) det g
               = ((k0, s0), g1)"
    and c1: "compute_score (Rainfall r) (Vibration r) (Blast r) (bench_slope b + 1 * 2) det g1
               = ((k1, s1), g2)"
    and c2: "compute_score (Rainfall r) (Vibration r) (Blast r) (bench_slope b + 2 * 2) det g2
               = ((k2, s2), g3)"
    and c: "c = (sum_list (map fst (bench_coords b)) / real (length (bench_coords b)),
                 sum_list (map snd (bench_coords b)) / real (length (bench_coords b)))"
  shows "bench_zones [r] det (m, g) =
     Inr (m @ [Circle c (30 * (0 + 1)) (risk_color k0) 0.5
                 (bench_id b @ '' - Layer 1: '' @ k0 @ '' ('' @ format_1f s0 @ '')''),
               Circle c (30 * (1 + 1)) (risk_color k1) 0.5
                 (bench_id b @ '' - Layer 2: '' @ k1 @ '' ('' @ format_1f s1 @ '')''),
               Circle c (30 * (2 + 1)) (risk_color k2) 0.5
                 (bench_id b @ '' - Layer 3: '' @ k2 @ '' ('' @ format_1f s2 @ '')''),
               Marker c (''<b>'' @ bench_id b @ ''</b>'')], g3)
   \<and> bench_zones (r # rs) det (m, g) =
       (case bench_zones [r] det (m, g) of
          Inl e \<Rightarrow> Inl e
        | Inr acc \<Rightarrow> bench_zones rs det acc)
   \<and> (case tick_readings mode r1 v1 b1 r2 v2 b2 (rng st) of
         ((rain1, vib1, blast1, rain2, vib2, blast2), g0) \<Rightarrow>
           \<exists>out st' rows g4 zs g5.
             update_dashboard r1 v1 b1 r2 v2 b2 n show_dem mode st = Inr (out, st')
             \<and> score_groups
                   [(groups ! 0, rain1, vib1, blast1), (groups ! 1, rain2, vib2, blast2)]
                   (mode = ''Manual'') ([], g0) = Inr (rows, g4)
             \<and> map (\<lambda>r. (Bench r, Rainfall r, Vibration r, Blast r)) rows
                 = [(''Bench 1'', rain1, vib1, blast1), (''Bench 2'', rain1, vib1, blast1),
                    (''Bench 3'', rain2, vib2, blast2), (''Bench 4'', rain2, vib2, blast2)]
             \<and> bench_zones rows (mode = ''Manual'') (static_furniture, g4) = Inr (zs, g5)
             \<and> items (map_srcDoc out) = zs @ dem_items show_dem st)"
proof (intro conjI)
  show "bench_zones [r] det (m, g) =
     Inr (m @ [Circle c (30 * (0 + 1)) (risk_color k0) 0.5
                 (bench_id b @ '' - Layer 1: '' @ k0 @ '' ('' @ format_1f s0 @ '')''),
               Circle c (30 * (1 + 1)) (risk_color k1) 0.5
                 (bench_id b @ '' - Layer 2: '' @ k1 @ '' ('' @ format_1f s1 @ '')''),
               Circle c (30 * (2 + 1)) (risk_color k2) 0.5
                 (bench_id b @ '' - Layer 3: '' @ k2 @ '' ('' @ format_1f s2 @ '')''),
               Marker c (''<b>'' @ bench_id b @ ''</b>'')], g3)"
    by (rule bench_zone_one [OF b r c0 c1 c2 c])
  show "bench_zones (r # rs) det (m, g) =
       (case bench_zones [r] det (m, g) of
          Inl e \<Rightarrow> Inl e
        | Inr acc \<Rightarrow> bench_zones rs det acc)"
    by (rule bench_zones_Cons)
  obtain rain1 vib1 blast1 rain2 vib2 blast2 g0 where
    rd: "tick_readings mode r1 v1 b1 r2 v2 b2 (rng st)
           = ((rain1, vib1, blast1, rain2, vib2, blast2), g0)"
    by (metis surj_pair)
  obtain q1 s1 h1 where
    d1: "compute_score rain1 vib1 blast1 35 (mode = ''Manual'') g0 = ((q1, s1), h1)"
    by (metis surj_pair)
  obtain q2 s2 h2 where
    d2: "compute_score rain1 vib1 blast1 50 (mode = ''Manual'') h1 = ((q2, s2), h2)"
    by (metis surj_pair)
  obtain q3 s3 h3 where
    d3: "compute_score rain2 vib2 blast2 45 (mode = ''Manual'') h2 = ((q3, s3), h3)"
    by (metis surj_pair)
  obtain q4 s4 h4 where
    d4: "compute_score rain2 vib2 blast2 60 (mode = ''Manual'') h3 = ((q4, s4), h4)"
    by (metis surj_pair)
  define rows where "rows =
      [\<lparr>Bench = ''Bench 1'', Slope = 35, Rainfall = rain1, Vibration = vib1, Blast = blast1,
         Score = round1 s1, Risk = q1\<rparr>,
       \<lparr>Bench = ''Bench 2'', Slope = 50, Rainfall = rain1, Vibration = vib1, Blast = blast1,
         Score = round1 s2, Risk = q2\<rparr>,
       \<lparr>Bench = ''Bench 3'', Slope = 45, Rainfall = rain2, Vibration = vib2, Blast = blast2,
         Score = round1 s3, Risk = q3\<rparr>,
       \<lparr>Bench = ''Bench 4'', Slope = 60, Rainfall = rain2, Vibration = vib2, Blast = blast2,
         Score = round1 s4, Risk = q4\<rparr>]"
  have sg: "score_groups [(groups ! 0, rain1, vib1, blast1), (groups ! 1, rain2, vib2, blast2)]
              (mode = ''Manual'') ([], g0) = Inr (rows, h4)"
    by (simp only: score_groups_catalog d1 d2 d3 d4 rows_def prod.case fst_conv snd_conv)
  have rf: "map (\<lambda>r. (Bench r, Rainfall r, Vibration r, Blast r)) rows
                 = [(''Bench 1'', rain1, vib1, blast1), (''Bench 2'', rain1, vib1, blast1),
                    (''Bench 3'', rain2, vib2, blast2), (''Bench 4'', rain2, vib2, blast2)]"
    by (simp add: rows_def)
  from update_dashboard_result [OF rd d1 d2 d3 d4 rows_def refl, of n show_dem]
  obtain out st' zs g5 where
    u: "update_dashboard r1 v1 b1 r2 v2 b2 n show_dem mode st = Inr (out, st')"
    and bz: "bench_zones rows (mode = ''Manual'') (static_furniture, h4) = Inr (zs, g5)"
    and it: "items (map_srcDoc out) = zs @ dem_items show_dem st"
    by (elim exE conjE) (rule that; assumption)
  show "case tick_readings mode r1 v1 b1 r2 v2 b2 (rng st) of
         ((rain1, vib1, blast1, rain2, vib2, blast2), g0) \<Rightarrow>
           \<exists>out st' rows g4 zs g5.
             update_dashboard r1 v1 b1 r2 v2 b2 n show_dem mode st = Inr (out, st')
             \<and> score_groups
                   [(groups ! 0, rain1, vib1, blast1), (groups ! 1, rain2, vib2, blast2)]
                   (mode = ''Manual'') ([], g0) = Inr (rows, g4)
             \<and> map (\<lambda>r. (Bench r, Rainfall r, Vibration r, Blast r)) rows
                 = [(''Bench 1'', rain1, vib1, blast1), (''Bench 2'', rain1, vib1, blast1),
                    (''Bench 3'', rain2, vib2, blast2), (''Bench 4'', rain2, vib2, blast2)]
             \<and> bench_zones rows (mode = ''Manual'') (static_furniture, g4) = Inr (zs, g5)
             \<and> items (map_srcDoc out) = zs @ dem_items show_dem st"
    unfolding rd prod.case
    apply (intro exI conjI)
        apply (rule u)
       apply (rule sg)
      apply (rule rf)
     apply (rule bz)
    apply (rule it)
    done
qed

text \<open>Bench 1 with the reading (100, 5, 3), not deterministic, every raw draw being \<open>1/2\<close>.\<close>

theorem geo_layer_circles_witness:
  "benches ! 0 \<in> set benches
   \<and> Bench \<lparr>Bench = ''Bench 1'', Slope = 35, Rainfall = 100, Vibration = 5, Blast = 3,
             Score = 125.2, Risk = ''High''\<rparr> = bench_id (benches ! 0)
   \<and> compute_score 100 5 3 (bench_slope (benches ! 0) + 0 * 2) False (half_source 0)
       = ((''High'', 125.25), half_source 2)
   \<and> compute_score 100 5 3 (bench_slope (benches ! 0) + 1 * 2) False (half_source 2)
       = ((''High'', 126.25), half_source 4)
   \<and> compute_score 100 5 3 (bench_slope (benches ! 0) + 2 * 2) False (half_source 4)
       = ((''High'', 127.25), half_source 6)
   \<and> bench_zones
         [\<lparr>Bench = ''Bench 1'', Slope = 35, Rainfall = 100, Vibration = 5, Blast = 3,
            Score = 125.2, Risk = ''High''\<rparr>] False ([], half_source 0)
       = Inr ([Circle (23.1783, 72.65155) 30 ''#E53935'' 0.5 ''Bench 1 - Layer 1: High (125.2)'',
               Circle (23.1783, 72.65155) 60 ''#E53935'' 0.5 ''Bench 1 - Layer 2: High (126.2)'',
               Circle (23.1783, 72.65155) 90 ''#E53935'' 0.5 ''Bench 1 - Layer 3: High (127.2)'',
               Marker (23.1783, 72.65155) ''<b>Bench 1</b>''], half_source 6)"
proof -
  define R where "R = \<lparr>Bench = ''Bench 1'', Slope = 35, Rainfall = 100, Vibration = 5,
    Blast = 3, Score = 125.2, Risk = ''High''\<rparr>"
  have b: "benches ! 0 \<in> set benches" by (simp add: benches_def)
  have bid: "bench_id (benches ! 0) = ''Bench 1''" and sl: "bench_slope (benches ! 0) = 35"
    by (simp_all add: benches_def)
  have ctr: "(sum_list (map fst (bench_coords (benches ! 0)))
                / real (length (bench_coords (benches ! 0))),
              sum_list (map snd (bench_coords (benches ! 0)))
                / real (length (bench_coords (benches ! 0)))) = (23.1783, 72.65155)"
    by (simp add: benches_def)
  have r: "Bench R = bench_id (benches ! 0)" by (simp add: R_def bid)
  have rf: "Rainfall R = 100" "Vibration R = 5" "Blast R = 3" by (simp_all add: R_def)
  have c0: "compute_score 100 5 3 (bench_slope (benches ! 0) + 0 * 2) False (half_source 0)
       = ((''High'', 125.25), half_source 2)"
    and c1: "compute_score 100 5 3 (bench_slope (benches ! 0) + 1 * 2) False (half_source 2)
       = ((''High'', 126.25), half_source 4)"
    and c2: "compute_score 100 5 3 (bench_slope (benches ! 0) + 2 * 2) False (half_source 4)
       = ((''High'', 127.25), half_source 6)"
    unfolding sl by (simp_all add: compute_score_def uniform_half eval_nat_numeral)
  have e: "[] @ [Circle (23.1783, 72.65155) (30 * (0 + 1)) (risk_color ''High'') 0.5
                 (bench_id (benches ! 0) @ '' - Layer 1: '' @ ''High'' @ '' (''
                    @ format_1f 125.25 @ '')''),
               Circle (23.1783, 72.65155) (30 * (1 + 1)) (risk_color ''High'') 0.5
                 (bench_id (benches ! 0) @ '' - Layer 2: '' @ ''High'' @ '' (''
                    @ format_1f 126.25 @ '')''),
               Circle (23.1783, 72.65155) (30 * (2 + 1)) (risk_color ''High'') 0.5
                 (bench_id (benches ! 0) @ '' - Layer 3: '' @ ''High'' @ '' (''
                    @ format_1f 127.25 @ '')''),
               Marker (23.1783, 72.65155) (''<b>'' @ bench_id (benches ! 0) @ ''</b>'')]
     = [Circle (23.1783, 72.65155) 30 ''#E53935'' 0.5 ''Bench 1 - Layer 1: High (125.2)'',
        Circle (23.1783, 72.65155) 60 ''#E53935'' 0.5 ''Bench 1 - Layer 2: High (126.2)'',
        Circle (23.1783, 72.65155) 90 ''#E53935'' 0.5 ''Bench 1 - Layer 3: High (127.2)'',
        Marker (23.1783, 72.65155) ''<b>Bench 1</b>'']"
    unfolding format_1f_half_examples bid by (simp add: risk_color_def)
  note t = geo_layer_circles [where m = "[]", OF b r c0 [folded rf] c1 [folded rf]
      c2 [folded rf] ctr [symmetric], THEN conjunct1]
  have z: "bench_zones [R] False ([], half_source 0)
       = Inr ([Circle (23.1783, 72.65155) 30 ''#E53935'' 0.5 ''Bench 1 - Layer 1: High (125.2)'',
               Circle (23.1783, 72.65155) 60 ''#E53935'' 0.5 ''Bench 1 - Layer 2: High (126.2)'',
               Circle (23.1783, 72.65155) 90 ''#E53935'' 0.5 ''Bench 1 - Layer 3: High (127.2)'',
               Marker (23.1783, 72.65155) ''<b>Bench 1</b>''], half_source 6)"
    using t unfolding e .
  show ?thesis
    using b r c0 c1 c2 z unfolding R_def by (intro conjI)
qed

section \<open>Stored and displayed scores\<close>

text \<open>
  Claim C10. Name the readings of the tick and the four primary results \<open>(k\<^sub>i, s\<^sub>i)\<close> of
  the scorer as in claim C7. Then the callback completes, and the scores it stores are the
  primary scores rounded to one decimal (\<open>round1 s\<^sub>i\<close>, a multiple of \<open>1/10\<close> at most
  \<open>1/20\<close> from \<open>s\<^sub>i\<close>), not \<open>s\<^sub>i\<close>: in the column \<open>Score\<close> of the table, in the record
  appended to the history, and so in the last point of every trace of the bench trend
  chart and in the last row of the bench columns of the exported frame. The rows handed to
  the map builder carry the readings of their group as they are, and the layer scoring
  reads only these reading fields: changing the stored \<open>Score\<close> of a row does not change
  the layer results.
\<close>

theorem stored_scores_rounded:
  assumes rd: "tick_readings mode r1 v1 b1 r2 v2 b2 (rng st)
                 = ((rain1, vib1, blast1, rain2, vib2, blast2), g0)"
    and c1: "compute_score rain1 vib1 blast1 35 (mode = ''Manual'') g0 = ((k1, s1), g1)"
    and c2: "compute_score rain1 vib1 blast1 50 (mode = ''Manual'') g1 = ((k2, s2), g2)"
    and c3: "compute_score rain2 vib2 blast2 45 (mode = ''Manual'') g2 = ((k3, s3), g3)"
    and c4: "compute_score rain2 vib2 blast2 60 (mode = ''Manual'') g3 = ((k4, s4), g4)"
  shows "\<exists>out st' rows zs g5.
     update_dashboard r1 v1 b1 r2 v2 b2 n show_dem mode st = Inr (out, st')
     \<and> map Score (data out) = [round1 s1, round1 s2, round1 s3, round1 s4]
     \<and> last (history st')
         = [(''rain1'', rain1), (''vib1'', vib1), (''blast1'', blast1),
            (''rain2'', rain2), (''vib2'', vib2), (''blast2'', blast2),
            (''Bench 1'', round1 s1), (''Bench 2'', round1 s2),
            (''Bench 3'', round1 s3), (''Bench 4'', round1 s4)]
     \<and> map (\<lambda>t. (fst t, last (snd t))) (traces (bench_fig out))
         = [(''Bench 1'', Some (round1 s1)), (''Bench 2'', Some (round1 s2)),
            (''Bench 3'', Some (round1 s3)), (''Bench 4'', Some (round1 s4))]
     \<and> map (\<lambda>b. map_option last (map_of (snd (export_csv k st')) (bench_id b))) benches
         = [Some (Some (round1 s1)), Some (Some (round1 s2)),
            Some (Some (round1 s3)), Some (Some (round1 s4))]
     \<and> bench_zones rows (mode = ''Manual'') (static_furniture, g4) = Inr (zs, g5)
     \<and> items (map_srcDoc out) = zs @ dem_items show_dem st
     \<and> map (\<lambda>r. (Bench r, Rainfall r, Vibration r, Blast r, Score r)) rows
         = [(''Bench 1'', rain1, vib1, blast1, round1 s1),
            (''Bench 2'', rain1, vib1, blast1, round1 s2),
            (''Bench 3'', rain2, vib2, blast2, round1 s3),
            (''Bench 4'', rain2, vib2, blast2, round1 s4)]
     \<and> (\<forall>ls r b x g. layer_scores ls (r\<lparr>Score := x\<rparr>) b (mode = ''Manual'') g
                        = layer_scores ls r b (mode = ''Manual'') g)
     \<and> (\<forall>x. \<bar>round1 x - x\<bar> \<le> 1 / 20 \<and> (\<exists>i::int. round1 x = of_int i / 10))"
proof -
  define rows where "rows =
      [\<lparr>Bench = ''Bench 1'', Slope = 35, Rainfall = rain1, Vibration = vib1, Blast = blast1,
         Score = round1 s1, Risk = k1\<rparr>,
       \<lparr>Bench = ''Bench 2'', Slope = 50, Rainfall = rain1, Vibration = vib1, Blast = blast1,
         Score = round1 s2, Risk = k2\<rparr>,
       \<lparr>Bench = ''Bench 3'', Slope = 45, Rainfall = rain2, Vibration = vib2, Blast = blast2,
         Score = round1 s3, Risk = k3\<rparr>,
       \<lparr>Bench = ''Bench 4'', Slope = 60, Rainfall = rain2, Vibration = vib2, Blast = blast2,
         Score = round1 s4, Risk = k4\<rparr>]"
  define rec where "rec =
      [(''rain1'', rain1), (''vib1'', vib1), (''blast1'', blast1),
       (''rain2'', rain2), (''vib2'', vib2), (''blast2'', blast2),
       (''Bench 1'', round1 s1), (''Bench 2'', round1 s2),
       (''Bench 3'', round1 s3), (''Bench 4'', round1 s4)]"
  define h' where "h' = append_history rec (history st)"
  from update_dashboard_result [OF rd c1 c2 c3 c4 rows_def h'_def [unfolded rec_def],
      of n show_dem]
  obtain out st' zs g5 where
    u: "update_dashboard r1 v1 b1 r2 v2 b2 n show_dem mode st = Inr (out, st')"
    and bz: "bench_zones rows (mode = ''Manual'') (static_furniture, g4) = Inr (zs, g5)"
    and d: "data out = map (\<lambda>r. result_row.extend r \<lparr>Status = risk_icon (Risk r)\<rparr>) rows"
    and it: "items (map_srcDoc out) = zs @ dem_items show_dem st"
    and tr: "traces (bench_fig out) =
           [(''Bench 1'', map (\<lambda>r. map_of r ''Bench 1'') h'),
            (''Bench 2'', map (\<lambda>r. map_of r ''Bench 2'') h'),
            (''Bench 3'', map (\<lambda>r. map_of r ''Bench 3'') h'),
            (''Bench 4'', map (\<lambda>r. map_of r ''Bench 4'') h')]"
    and st': "st' = st\<lparr>history := h', rng := g5\<rparr>"
    by (elim exE conjE) (rule that; assumption)
  have hs: "history st' = h'" by (simp add: st')
  have ne: "h' \<noteq> []" unfolding h'_def by (rule append_history_nonempty)
  have lh: "last h' = rec" unfolding h'_def by (rule append_history_last_eq)
  have inh: "rec \<in> set h'" unfolding h'_def by (rule append_history_last)
  have lastcol: "last (map (\<lambda>r. map_of r key) h') = map_of rec key" for key
    using ne by (simp add: last_map lh)
  have a: "map Score (data out) = [round1 s1, round1 s2, round1 s3, round1 s4]"
    by (simp add: d rows_def row_extend_sel)
  have b: "last (history st') = rec" by (simp add: hs lh)
  have c: "map (\<lambda>t. (fst t, last (snd t))) (traces (bench_fig out))
         = [(''Bench 1'', Some (round1 s1)), (''Bench 2'', Some (round1 s2)),
            (''Bench 3'', Some (round1 s3)), (''Bench 4'', Some (round1 s4))]"
    by (simp add: tr lastcol) (simp add: rec_def)
  have col: "map_option last (map_of (snd (export_csv k st')) key) = Some (map_of rec key)"
    if "map_of rec key \<noteq> None" for key
    unfolding export_csv_def snd_conv hs data_frame_column [OF inh that]
    by (simp add: lastcol)
  have e: "map (\<lambda>b. map_option last (map_of (snd (export_csv k st')) (bench_id b))) benches
         = [Some (Some (round1 s1)), Some (Some (round1 s2)),
            Some (Some (round1 s3)), Some (Some (round1 s4))]"
  proof -
    have "map_option last (map_of (snd (export_csv k st')) ''Bench 1'') = Some (Some (round1 s1))"
      "map_option last (map_of (snd (export_csv k st')) ''Bench 2'') = Some (Some (round1 s2))"
      "map_option last (map_of (snd (export_csv k st')) ''Bench 3'') = Some (Some (round1 s3))"
      "map_option last (map_of (snd (export_csv k st')) ''Bench 4'') = Some (Some (round1 s4))"
      by (subst col; simp add: rec_def)+
    then show ?thesis by (simp add: benches_def)
  qed
  have f: "map (\<lambda>r. (Bench r, Rainfall r, Vibration r, Blast r, Score r)) rows
         = [(''Bench 1'', rain1, vib1, blast1, round1 s1),
            (''Bench 2'', rain1, vib1, blast1, round1 s2),
            (''Bench 3'', rain2, vib2, blast2, round1 s3),
            (''Bench 4'', rain2, vib2, blast2, round1 s4)]"
    by (simp add: rows_def)
  have g: "\<forall>ls r b x g. layer_scores ls (r\<lparr>Score := x\<rparr>) b (mode = ''Manual'') g
                        = layer_scores ls r b (mode = ''Manual'') g"
    by (simp add: layer_scores_Score)
  have i: "\<forall>x. \<bar>round1 x - x\<bar> \<le> 1 / 20 \<and> (\<exists>i::int. round1 x = of_int i / 10)"
    using round1_spec by blast
  show ?thesis
    apply (intro exI conjI)
            apply (rule u)
           apply (rule a)
          apply (rule b [unfolded rec_def])
         apply (rule c)
        apply (rule e)
       apply (rule bz)
      apply (rule it)
     apply (rule f)
    apply (rule g)
    apply (rule i)
    done
qed

text \<open>
  A call in Auto mode on a fresh state, every raw draw being \<open>1/2\<close>: the primary score of
  Bench 1 is 125.25 and the stored one 125.2.
\<close>

theorem stored_scores_rounded_witness:
  "tick_readings ''Auto'' 0 0 0 0 0 0 (rng (fresh_state (half_source 0)))
     = ((100, 5, 3, 100, 5, 3), half_source 6)
   \<and> compute_score 100 5 3 35 (''Auto'' = ''Manual'') (half_source 6)
       = ((''High'', 125.25), half_source 8)
   \<and> compute_score 100 5 3 50 (''Auto'' = ''Manual'') (half_source 8)
       = ((''High'', 132.75), half_source 10)
   \<and> compute_score 100 5 3 45 (''Auto'' = ''Manual'') (half_source 10)
       = ((''High'', 130.25), half_source 12)
   \<and> compute_score 100 5 3 60 (''Auto'' = ''Manual'') (half_source 12)
       = ((''High'', 137.75), half_source 14)
   \<and> (\<exists>out st'.
         update_dashboard 0 0 0 0 0 0 0 False ''Auto'' (fresh_state (half_source 0))
           = Inr (out, st')
         \<and> map Score (data out) = [125.2, 132.8, 130.2, 137.8]
         \<and> last (history st')
             = [(''rain1'', 100), (''vib1'', 5), (''blast1'', 3),
                (''rain2'', 100), (''vib2'', 5), (''blast2'', 3),
                (''Bench 1'', 125.2), (''Bench 2'', 132.8),
                (''Bench 3'', 130.2), (''Bench 4'', 137.8)])
   \<and> (125.25 :: real) \<noteq> 125.2"
proof -
  have rd: "tick_readings ''Auto'' 0 0 0 0 0 0 (rng (fresh_state (half_source 0)))
     = ((100, 5, 3, 100, 5, 3), half_source 6)"
    by (simp add: tick_readings_def fresh_state_def auto_readings_half)
  have c: "compute_score 100 5 3 35 (''Auto'' = ''Manual'') (half_source 6)
       = ((''High'', 125.25), half_source 8)"
    "compute_score 100 5 3 50 (''Auto'' = ''Manual'') (half_source 8)
       = ((''High'', 132.75), half_source 10)"
    "compute_score 100 5 3 45 (''Auto'' = ''Manual'') (half_source 10)
       = ((''High'', 130.25), half_source 12)"
    "compute_score 100 5 3 60 (''Auto'' = ''Manual'') (half_source 12)
       = ((''High'', 137.75), half_source 14)"
    using compute_score_half by simp_all
  from stored_scores_rounded [OF rd c, of 0 False 0]
  obtain out st' where
    u: "update_dashboard 0 0 0 0 0 0 0 False ''Auto'' (fresh_state (half_source 0))
           = Inr (out, st')"
    and d: "map Score (data out)
              = [round1 125.25, round1 132.75, round1 130.25, round1 137.75]"
    and h: "last (history st')
             = [(''rain1'', 100), (''vib1'', 5), (''blast1'', 3),
                (''rain2'', 100), (''vib2'', 5), (''blast2'', 3),
                (''Bench 1'', round1 125.25), (''Bench 2'', round1 132.75),
                (''Bench 3'', round1 130.25), (''Bench 4'', round1 137.75)]"
    by (elim exE conjE) (rule that; assumption)
  have ex: "\<exists>out st'.
         update_dashboard 0 0 0 0 0 0 0 False ''Auto'' (fresh_state (half_source 0))
           = Inr (out, st')
         \<and> map Score (data out) = [125.2, 132.8, 130.2, 137.8]
         \<and> last (history st')
             = [(''rain1'', 100), (''vib1'', 5), (''blast1'', 3),
                (''rain2'', 100), (''vib2'', 5), (''blast2'', 3),
                (''Bench 1'', 125.2), (''Bench 2'', 132.8),
                (''Bench 3'', 130.2), (''Bench 4'', 137.8)]"
    using u d [unfolded round1_half] h [unfolded round1_half] by (intro exI conjI)
  have ne: "(125.25 :: real) \<noteq> 125.2" by simp
  from rd c ex ne show ?thesis by (intro conjI)
qed

section \<open>The CSV export\<close>

subsection \<open>Auxiliary facts on the text\<close>

paragraph \<open>Digits\<close>

lemma digit_cases: "d < 10 \<Longrightarrow> d \<in> {0, 1, 2, 3, 4, 5, 6, 7, 8, 9::nat}"
  by auto

lemma digit_value_nth: "d < 10 \<Longrightarrow> digit_value (''0123456789'' ! d) = Some d"
  using digit_cases [of d] by (auto simp: digit_value_def)

lemma digit_nth_in: "d < 10 \<Longrightarrow> ''0123456789'' ! d \<in> set ''0123456789''"
  using digit_cases [of d] by auto

lemma show_nat_digits: "set (show_nat n) \<subseteq> set ''0123456789''"
proof (induction n rule: show_nat.induct)
  case (1 n)
  show ?case
  proof (cases "n < 10")
    case True
    then show ?thesis using digit_nth_in [of n]
      by (subst show_nat.simps) (simp del: show_nat.simps)
  next
    case False
    have "n mod 10 < 10" by simp
    from digit_nth_in [OF this] 1 [OF False] False show ?thesis
      by (subst show_nat.simps) (simp del: show_nat.simps)
  qed
qed

lemma show_nat_nonempty: "show_nat n \<noteq> []"
  by (subst show_nat.simps) (simp del: show_nat.simps)

lemma parse_digits_append:
  "parse_digits acc (xs @ ys) =
     (case parse_digits acc xs of None \<Rightarrow> None | Some a \<Rightarrow> parse_digits a ys)"
  by (induction xs arbitrary: acc) (simp_all split: option.splits)

lemma parse_digits_show_nat:
  "parse_digits acc (show_nat n) = Some (acc * 10 ^ length (show_nat n) + n)"
proof (induction n arbitrary: acc rule: show_nat.induct)
  case (1 n)
  show ?case
  proof (cases "n < 10")
    case True
    then show ?thesis
      by (subst (1 2) show_nat.simps) (simp add: digit_value_nth del: show_nat.simps)
  next
    case False
    have m: "n mod 10 < 10" by simp
    have "parse_digits acc (show_nat n)
            = parse_digits acc (show_nat (n div 10) @ [''0123456789'' ! (n mod 10)])"
      using False by (subst show_nat.simps) (simp del: show_nat.simps)
    also have "\<dots> = Some ((acc * 10 ^ length (show_nat (n div 10)) + n div 10) * 10 + n mod 10)"
      by (simp add: parse_digits_append 1 [OF False] digit_value_nth [OF m] del: show_nat.simps)
    also have "(acc * 10 ^ length (show_nat (n div 10)) + n div 10) * 10 + n mod 10
                 = acc * 10 ^ length (show_nat n) + n"
    proof -
      have "length (show_nat n) = Suc (length (show_nat (n div 10)))"
        using False by (subst show_nat.simps) (simp del: show_nat.simps)
      then show ?thesis by (simp add: algebra_simps del: show_nat.simps)
    qed
    finally show ?thesis .
  qed
qed

lemma parse_digits_show_nat0: "parse_digits 0 (show_nat n) = Some n"
  by (simp add: parse_digits_show_nat del: show_nat.simps)

lemma frac_digit_bound:
  assumes "0 \<le> f" "f < 1"
  shows "nat \<lfloor>f * 10\<rfloor> < 10" "0 \<le> f * 10 - real (nat \<lfloor>f * 10\<rfloor>)"
    "f * 10 - real (nat \<lfloor>f * 10\<rfloor>) < 1"
proof -
  have a: "0 \<le> \<lfloor>f * 10\<rfloor>" using assms by simp
  have "f * 10 < 10" using assms by simp
  then have "\<lfloor>f * 10\<rfloor> < 10" by (simp add: floor_less_iff)
  with a show "nat \<lfloor>f * 10\<rfloor> < 10" by arith
  have r: "real (nat \<lfloor>f * 10\<rfloor>) = of_int \<lfloor>f * 10\<rfloor>" using a by simp
  show "0 \<le> f * 10 - real (nat \<lfloor>f * 10\<rfloor>)" unfolding r by linarith
  show "f * 10 - real (nat \<lfloor>f * 10\<rfloor>) < 1" unfolding r by linarith
qed

lemma frac_digits_digits:
  "0 \<le> f \<Longrightarrow> f < 1 \<Longrightarrow> set (frac_digits n f) \<subseteq> set ''0123456789''"
proof (induction n arbitrary: f)
  case 0
  then show ?case by simp
next
  case (Suc n)
  from frac_digit_bound [OF Suc.prems]
  have d: "nat \<lfloor>f * 10\<rfloor> < 10"
    and r: "0 \<le> f * 10 - real (nat \<lfloor>f * 10\<rfloor>)" "f * 10 - real (nat \<lfloor>f * 10\<rfloor>) < 1"
    by simp_all
  from Suc.IH [OF r] digit_nth_in [OF d] show ?case
    by (auto simp: Let_def)
qed

lemma frac_value_digits:
  assumes "0 \<le> f" "f < 1" "of_int \<lfloor>f * 10 ^ n\<rfloor> = f * 10 ^ n"
  shows "frac_value (frac_digits n f) = Some f"
  using assms
proof (induction n arbitrary: f)
  case 0
  then have "of_int \<lfloor>f\<rfloor> = f" by simp
  moreover have "\<lfloor>f\<rfloor> = 0" using 0 by (simp add: floor_eq_iff)
  ultimately have "f = 0" by simp
  then show ?case by simp
next
  case (Suc n)
  define d where "d = nat \<lfloor>f * 10\<rfloor>"
  define f' where "f' = f * 10 - real d"
  from frac_digit_bound [OF Suc.prems(1,2)]
  have d: "d < 10" and r: "0 \<le> f'" "f' < 1"
    by (simp_all add: d_def f'_def)
  define N where "N = \<lfloor>f * 10 ^ Suc n\<rfloor>"
  have e: "f * 10 ^ Suc n = of_int N"
    unfolding N_def using Suc.prems(3) by (rule sym)
  have "f' * 10 ^ n = f * 10 ^ Suc n - real d * 10 ^ n"
    by (simp add: f'_def algebra_simps)
  also have "\<dots> = of_int (N - int d * 10 ^ n)"
    unfolding e by simp
  finally have "f' * 10 ^ n = of_int (N - int d * 10 ^ n)" .
  then have i: "of_int \<lfloor>f' * 10 ^ n\<rfloor> = f' * 10 ^ n"
    by (simp only: floor_of_int)
  have v: "(real d + f') / 10 = f" by (simp add: f'_def)
  show ?case
  proof (cases "f' = 0")
    case True
    then show ?thesis
      using v by (simp add: Let_def d_def [symmetric] f'_def [symmetric] digit_value_nth [OF d])
  next
    case False
    then show ?thesis
      using v Suc.IH [OF r i]
      by (simp add: Let_def d_def [symmetric] f'_def [symmetric] digit_value_nth [OF d])
  qed
qed

paragraph \<open>The text of a number\<close>

declare show_nat.simps [simp del]

lemma frac_digits_nonempty: "frac_digits (Suc n) f \<noteq> []"
  by (simp add: Let_def)

lemma takeWhile_dropWhile_stop:
  assumes "\<forall>c \<in> set xs. P c" and "ys = [] \<or> \<not> P (hd ys)"
  shows "takeWhile P (xs @ ys) = xs" and "dropWhile P (xs @ ys) = ys"
proof -
  have t: "takeWhile P ys = []" and d: "dropWhile P ys = ys"
    using assms(2) by (cases ys; simp)+
  show "takeWhile P (xs @ ys) = xs"
    using assms(1) t by (simp add: takeWhile_append2)
  show "dropWhile P (xs @ ys) = ys"
    using assms(1) d by (simp add: dropWhile_append2)
qed

lemma digits_not_point: "c \<in> set ''0123456789'' \<Longrightarrow> c \<noteq> CHR ''.'' \<and> c \<noteq> CHR ''-''"
  by auto

lemma parse_unsigned_text:
  assumes a: "0 \<le> a" and s: "of_int \<lfloor>a * 10 ^ 17\<rfloor> = a * 10 ^ 17"
  shows "parse_unsigned
           (show_nat (nat \<lfloor>a\<rfloor>)
              @ (if a - of_int \<lfloor>a\<rfloor> = 0 \<and> \<not> float then []
                 else ''.'' @ frac_digits 17 (a - of_int \<lfloor>a\<rfloor>)))
         = Some a"
proof -
  define i where "i = nat \<lfloor>a\<rfloor>"
  define f where "f = a - of_int \<lfloor>a\<rfloor>"
  define F where "F = (if f = 0 \<and> \<not> float then [] else ''.'' @ frac_digits 17 f)"
  have ri: "real i = of_int \<lfloor>a\<rfloor>" using a by (simp add: i_def)
  have f01: "0 \<le> f" "f < 1" unfolding f_def by linarith+
  have af: "a = real i + f" by (simp add: ri f_def)
  have dg: "\<forall>c \<in> set (show_nat i). c \<noteq> CHR ''.''"
    using show_nat_digits [of i] digits_not_point by blast
  have st: "F = [] \<or> \<not> (hd F \<noteq> CHR ''.'')" by (simp add: F_def)
  have tw: "takeWhile (\<lambda>c. c \<noteq> CHR ''.'') (show_nat i @ F) = show_nat i"
    and dw: "dropWhile (\<lambda>c. c \<noteq> CHR ''.'') (show_nat i @ F) = F"
    using takeWhile_dropWhile_stop [OF dg st] by simp_all
  define N where "N = \<lfloor>a * 10 ^ 17\<rfloor>"
  have e: "a * 10 ^ 17 = of_int N"
    unfolding N_def using s by (rule sym)
  have "f * 10 ^ 17 = a * 10 ^ 17 - of_int \<lfloor>a\<rfloor> * 10 ^ 17"
    by (simp add: f_def algebra_simps)
  also have "\<dots> = of_int (N - \<lfloor>a\<rfloor> * 10 ^ 17)"
    unfolding e by simp
  finally have "f * 10 ^ 17 = of_int (N - \<lfloor>a\<rfloor> * 10 ^ 17)" .
  then have fi: "of_int \<lfloor>f * 10 ^ 17\<rfloor> = f * 10 ^ 17"
    by (simp only: floor_of_int)
  have pd: "parse_digits 0 (show_nat i) = Some i"
    by (rule parse_digits_show_nat0)
  have gen: "parse_unsigned (show_nat i @ F) =
     (if F = [] then Some (real i)
      else if tl F = [] then None
      else map_option (\<lambda>v. real i + v) (frac_value (tl F)))"
    unfolding parse_unsigned_def Let_def tw dw pd
    using show_nat_nonempty [of i] by simp
  have pu: "parse_unsigned (show_nat i @ F) = Some a"
  proof (cases "f = 0 \<and> \<not> float")
    case True
    then have "F = []" by (simp add: F_def)
    moreover have "real i = a" using True af by simp
    ultimately show ?thesis unfolding gen by simp
  next
    case False
    have ne: "frac_digits 17 f \<noteq> []"
      using frac_digits_nonempty [of 16 f] by (simp del: frac_digits.simps)
    have fv: "frac_value (frac_digits 17 f) = Some f"
      by (rule frac_value_digits [OF f01 fi])
    from False have Fd: "F = ''.'' @ frac_digits 17 f"
      unfolding F_def by (simp only: if_False)
    have F: "F \<noteq> []" "tl F = frac_digits 17 f"
      unfolding Fd by (simp_all del: frac_digits.simps)
    have "parse_unsigned (show_nat i @ F) = map_option (\<lambda>v. real i + v) (frac_value (tl F))"
      unfolding gen using F(1) ne by (simp add: F(2) del: frac_digits.simps)
    also have "\<dots> = Some (real i + f)"
      unfolding F(2) fv by simp
    finally show ?thesis using af by simp
  qed
  then show ?thesis unfolding i_def f_def F_def .
qed

lemma short_decimal_abs: "short_decimal x \<Longrightarrow> of_int \<lfloor>\<bar>x\<bar> * 10 ^ 17\<rfloor> = \<bar>x\<bar> * 10 ^ 17"
proof -
  assume "short_decimal x"
  then have a: "of_int \<lfloor>x * 10 ^ 17\<rfloor> = x * 10 ^ 17"
    unfolding short_decimal_def .
  show ?thesis
  proof (cases "0 \<le> x")
    case True
    then have "\<bar>x\<bar> = x" by simp
    then show ?thesis using a by (simp only:)
  next
    case False
    then have "\<bar>x\<bar> * 10 ^ 17 = - (x * 10 ^ 17)" by simp
    also have "\<dots> = - of_int \<lfloor>x * 10 ^ 17\<rfloor>"
      using a by (simp only:)
    also have "\<dots> = of_int (- \<lfloor>x * 10 ^ 17\<rfloor>)"
      by (simp only: of_int_minus)
    finally have "\<bar>x\<bar> * 10 ^ 17 = of_int (- \<lfloor>x * 10 ^ 17\<rfloor>)" .
    then show ?thesis by (simp only: floor_of_int)
  qed
qed

lemma parse_number_text:
  assumes "short_decimal x"
  shows "parse_number (number_text float x) = Some x"
proof -
  define a where "a = \<bar>x\<bar>"
  define U where "U = show_nat (nat \<lfloor>a\<rfloor>)
              @ (if a - of_int \<lfloor>a\<rfloor> = 0 \<and> \<not> float then []
                 else ''.'' @ frac_digits 17 (a - of_int \<lfloor>a\<rfloor>))"
  have a: "0 \<le> a" by (simp add: a_def)
  have pu: "parse_unsigned U = Some a"
    unfolding U_def using short_decimal_abs [OF assms]
    by (intro parse_unsigned_text [OF a]) (simp add: a_def)
  have nt: "number_text float x = (if x < 0 then ''-'' else []) @ U"
    by (simp add: number_text_def Let_def a_def U_def del: show_nat.simps)
  obtain c cs where sn: "show_nat (nat \<lfloor>a\<rfloor>) = c # cs"
    using show_nat_nonempty [of "nat \<lfloor>a\<rfloor>"] by (cases "show_nat (nat \<lfloor>a\<rfloor>)") auto
  have "c \<in> set ''0123456789''"
    using show_nat_digits [of "nat \<lfloor>a\<rfloor>"] sn by auto
  then have c: "c \<noteq> CHR ''-''" using digits_not_point by blast
  obtain rest where U: "U = c # rest" by (simp add: U_def sn)
  show ?thesis
  proof (cases "x < 0")
    case True
    then show ?thesis
      using pu by (simp add: nt parse_number_def a_def)
  next
    case False
    then have xa: "x = a" by (simp add: a_def)
    have "number_text float x = c # rest" using False nt U by simp
    then have "parse_number (number_text float x) = parse_unsigned (c # rest)"
      using c by (simp add: parse_number_def)
    also have "\<dots> = Some a" using pu U by simp
    finally show ?thesis using xa by simp
  qed
qed

lemma number_text_chars: "set (number_text float x) \<subseteq> set ''0123456789.-''"
proof -
  define i where "i = nat \<lfloor>\<bar>x\<bar>\<rfloor>"
  define f where "f = \<bar>x\<bar> - of_int \<lfloor>\<bar>x\<bar>\<rfloor>"
  define D where "D = frac_digits 17 f"
  have f: "0 \<le> f" "f < 1" unfolding f_def by linarith+
  have a: "set (show_nat i) \<subseteq> set ''0123456789''" by (rule show_nat_digits)
  have b: "set D \<subseteq> set ''0123456789''"
    unfolding D_def by (rule frac_digits_digits [OF f])
  have n: "number_text float x = (if x < 0 then ''-'' else []) @ show_nat i
             @ (if f = 0 \<and> \<not> float then [] else ''.'' @ D)"
    unfolding number_text_def Let_def i_def f_def D_def by (rule refl)
  have "set (number_text float x) \<subseteq> {CHR ''-'', CHR ''.''} \<union> set (show_nat i) \<union> set D"
    unfolding n by auto
  also have "\<dots> \<subseteq> {CHR ''-'', CHR ''.''} \<union> set ''0123456789''"
    using a b by blast
  also have "\<dots> = set ''0123456789.-''" by auto
  finally show ?thesis .
qed

lemma number_text_nonempty: "number_text float x \<noteq> []"
  by (simp add: number_text_def Let_def show_nat_nonempty del: show_nat.simps)

lemma number_text_plain: "plain_text (number_text float x)"
  using number_text_chars [of float x] by (auto simp: plain_text_def list_ex_iff)

lemma show_nat_plain: "plain_text (show_nat n)"
  using show_nat_digits [of n] by (auto simp: plain_text_def list_ex_iff)

lemma parse_number_show_nat: "parse_number (show_nat n) = Some (real n)"
proof -
  have "real n * 10 ^ 17 = of_int (int n * 10 ^ 17)" by simp
  then have "of_int \<lfloor>real n * 10 ^ 17\<rfloor> = real n * 10 ^ 17"
    by (simp only: floor_of_int)
  then have "short_decimal (real n)"
    unfolding short_decimal_def .
  from parse_number_text [OF this, of False] show ?thesis
    by (simp add: number_text_def Let_def del: show_nat.simps)
qed

paragraph \<open>Lines and cells\<close>

lemma split_on_nonempty: "split_on c xs \<noteq> []"
  by (induction xs) (simp_all split: list.splits)

lemma split_on_plain: "c \<notin> set w \<Longrightarrow> split_on c w = [w]"
  by (induction w) auto

lemma split_on_append:
  "c \<notin> set w \<Longrightarrow> split_on c (w @ c # rest) = w # split_on c rest"
  by (induction w) auto

lemma split_on_join:
  "ws \<noteq> [] \<Longrightarrow> \<forall>w \<in> set ws. c \<notin> set w \<Longrightarrow> split_on c (join [c] ws) = ws"
proof (induction "[c]" ws rule: join.induct)
  case 1
  then show ?case by simp
next
  case (2 x)
  then show ?case by (simp add: split_on_plain)
next
  case (3 x y ys)
  have "split_on c (x @ c # join [c] (y # ys)) = x # split_on c (join [c] (y # ys))"
    using 3(3) by (intro split_on_append) simp
  then show ?case using 3 by simp
qed

lemma join_chars: "set (join sep ws) \<subseteq> set sep \<union> \<Union> (set ` set ws)"
  by (induction sep ws rule: join.induct) auto

lemma join_two_nonempty: "sep \<noteq> [] \<Longrightarrow> 2 \<le> length ws \<Longrightarrow> join sep ws \<noteq> []"
proof -
  assume a: "sep \<noteq> []" "2 \<le> length ws"
  then obtain x y ys where "ws = x # y # ys"
    by (cases ws; cases "tl ws") auto
  with a(1) show ?thesis by simp
qed

lemma split_on_lines:
  "\<forall>l \<in> set ls. c \<notin> set l \<Longrightarrow>
   split_on c (concat (map (\<lambda>l. l @ [c]) ls)) = ls @ [[]]"
proof (induction ls)
  case Nil
  then show ?case by simp
next
  case (Cons l ls)
  have "split_on c (l @ c # concat (map (\<lambda>l. l @ [c]) ls))
          = l # split_on c (concat (map (\<lambda>l. l @ [c]) ls))"
    using Cons.prems by (intro split_on_append) simp
  then show ?case using Cons by simp
qed

lemma split_lines_concat:
  assumes "\<forall>l \<in> set ls. CHR 0x0A \<notin> set l \<and> l \<noteq> []"
  shows "split_lines (concat (map (\<lambda>l. l @ [CHR 0x0A]) ls)) = ls"
proof -
  have "split_on (CHR 0x0A) (concat (map (\<lambda>l. l @ [CHR 0x0A]) ls)) = ls @ [[]]"
    using assms by (intro split_on_lines) blast
  moreover have "filter (\<lambda>l. l \<noteq> []) ls = ls"
    using assms by (simp add: filter_id_conv)
  ultimately show ?thesis by (simp add: split_lines_def)
qed

lemma csv_field_plain: "plain_text s \<Longrightarrow> csv_field s = s"
  by (simp add: csv_field_def plain_text_def)

lemma plain_text_chars:
  "plain_text s \<Longrightarrow> CHR '','' \<notin> set s \<and> CHR 0x22 \<notin> set s \<and> CHR 0x0A \<notin> set s"
  by (auto simp: plain_text_def list_ex_iff)

lemma csv_line_plain:
  assumes "list_all plain_text cells" "2 \<le> length cells"
  shows "csv_line cells = join '','' cells @ [CHR 0x0A]"
proof -
  have "map csv_field cells = cells"
    using assms(1) by (simp add: list_all_iff csv_field_plain map_idI)
  moreover have "cells \<noteq> [[]]" using assms(2) by auto
  ultimately show ?thesis by (simp add: csv_line_def)
qed

lemma join_plain:
  assumes "list_all plain_text cells"
  shows "CHR 0x22 \<notin> set (join '','' cells)" "CHR 0x0A \<notin> set (join '','' cells)"
proof -
  have "\<forall>w \<in> set cells. CHR 0x22 \<notin> set w \<and> CHR 0x0A \<notin> set w"
    using assms plain_text_chars by (auto simp: list_all_iff)
  with join_chars [of "'',''" cells]
  show "CHR 0x22 \<notin> set (join '','' cells)" "CHR 0x0A \<notin> set (join '','' cells)"
    by auto
qed

lemma split_join_plain:
  assumes "list_all plain_text cells" "cells \<noteq> []"
  shows "split_on (CHR '','') (join '','' cells) = cells"
proof -
  have "\<forall>w \<in> set cells. CHR '','' \<notin> set w"
    using assms(1) plain_text_chars by (auto simp: list_all_iff)
  from split_on_join [OF assms(2) this] show ?thesis by simp
qed

lemma parse_cell_text:
  "(case v of None \<Rightarrow> True | Some x \<Rightarrow> short_decimal x) \<Longrightarrow>
   parse_cell (cell_text float v) = Some v"
  by (cases v)
     (simp_all add: parse_cell_def cell_text_def number_text_nonempty parse_number_text)

lemma cell_text_plain: "plain_text (cell_text float v)"
proof (cases v)
  case None
  then show ?thesis by (simp add: cell_text_def plain_text_def)
next
  case (Some x)
  then show ?thesis using number_text_plain [of float x] by (simp add: cell_text_def)
qed

lemma parse_cell_index: "parse_cell (show_nat i) = Some (Some (real i))"
  by (simp add: parse_cell_def show_nat_nonempty parse_number_show_nat)

lemma header_names_index:
  assumes "\<forall>nm \<in> set names. nm \<noteq> []"
  shows "header_names ([] # names) = ''Unnamed: 0'' # names"
proof -
  have "map (\<lambda>(i, c). if c = [] then ''Unnamed: '' @ show_nat i else c) (enumerate k names) = names"
    for k
    using assms by (induction names arbitrary: k) simp_all
  then show ?thesis
    by (simp add: header_names_def show_nat.simps)
qed

paragraph \<open>A frame written and read back\<close>

lemma read_to_csv:
  assumes ne: "cols \<noteq> []"
    and nm: "\<forall>col \<in> set cols. plain_text (fst col) \<and> fst col \<noteq> []"
    and len: "\<forall>col \<in> set cols. length (snd col) = n"
    and dec: "\<forall>col \<in> set cols. \<forall>v \<in> set (snd col).
                (case v of None \<Rightarrow> True | Some x \<Rightarrow> short_decimal x)"
  shows "read_csv (to_csv fc n cols)
           = Some ((''Unnamed: 0'', map (\<lambda>i. Some (real i)) [0..<n]) # cols)"
    and "split_lines (to_csv fc n cols)
           = join '','' ([] # map fst cols)
             # map (\<lambda>i. join '','' (show_nat i # map (\<lambda>col. cell_text (fc (fst col)) (snd col ! i)) cols))
                 [0..<n]"
proof -
  define header where "header = [] # map fst cols"
  define row where "row = (\<lambda>i. show_nat i # map (\<lambda>col. cell_text (fc (fst col)) (snd col ! i)) cols)"
  define ls where "ls = map (join '','') (header # map row [0..<n])"
  have row': "i < n \<Longrightarrow>
      show_nat i # map (\<lambda>col. if i < length (snd col) then cell_text (fc (fst col)) (snd col ! i) else []) cols
        = row i" for i
    using len by (simp add: row_def)
  have hp: "list_all plain_text header"
    using nm by (simp add: header_def list_all_iff plain_text_def)
  have rp: "list_all plain_text (row i)" for i
    by (simp add: row_def list_all_iff show_nat_plain cell_text_plain)
  have l2: "2 \<le> length header" "2 \<le> length (row i)" for i
    using ne by (cases cols; simp add: header_def row_def)+
  have tx: "to_csv fc n cols = concat (map (\<lambda>l. l @ [CHR 0x0A]) ls)"
  proof -
    have a: "map csv_line (header # map row [0..<n]) = map (\<lambda>l. l @ [CHR 0x0A]) ls"
      using hp rp l2 by (simp add: ls_def csv_line_plain)
    have b: "map (\<lambda>i. show_nat i
                  # map (\<lambda>col. if i < length (snd col) then cell_text (fc (fst col)) (snd col ! i) else [])
                      cols) [0..<n] = map row [0..<n]"
      using row' by simp
    have "to_csv fc n cols = concat (map csv_line (header # map row [0..<n]))"
      unfolding to_csv_def header_def b ..
    then show ?thesis
      unfolding a .
  qed
  have lsp: "\<forall>l \<in> set ls. CHR 0x0A \<notin> set l \<and> l \<noteq> []"
    and lsq: "\<forall>l \<in> set ls. CHR 0x22 \<notin> set l"
    using join_plain [OF hp] join_plain [OF rp] join_two_nonempty [OF _ l2(1), of "'',''"]
      join_two_nonempty [OF _ l2(2), of "'',''"]
    by (auto simp: ls_def)
  have lines: "split_lines (to_csv fc n cols) = ls"
    unfolding tx by (rule split_lines_concat [OF lsp])
  show "split_lines (to_csv fc n cols)
           = join '','' ([] # map fst cols)
             # map (\<lambda>i. join '','' (show_nat i # map (\<lambda>col. cell_text (fc (fst col)) (snd col ! i)) cols))
                 [0..<n]"
    unfolding lines ls_def header_def row_def by simp
  have noq: "CHR 0x22 \<notin> set (to_csv fc n cols)"
    unfolding tx using lsq by auto
  have sh: "split_on (CHR '','') (join '','' header) = header"
    by (rule split_join_plain [OF hp]) (simp add: header_def)
  have sr: "split_on (CHR '','') (join '','' (row i)) = row i" for i
    by (rule split_join_plain [OF rp]) (simp add: row_def)
  have names: "header_names header = ''Unnamed: 0'' # map fst cols"
    unfolding header_def using nm by (intro header_names_index) auto
  define prow where "prow = (\<lambda>i. Some (Some (real i)) # map (\<lambda>col. Some (snd col ! i)) cols)"
  have pr: "map parse_cell (row i) = prow i" if "i < n" for i
  proof -
    have "parse_cell (cell_text (fc (fst col)) (snd col ! i)) = Some (snd col ! i)" if "col \<in> set cols" for col
    proof -
      have "snd col ! i \<in> set (snd col)" using len that \<open>i < n\<close> by simp
      with dec that show ?thesis by (intro parse_cell_text) blast
    qed
    then show ?thesis
      by (simp add: row_def prow_def parse_cell_index)
  qed
  have rows: "map (\<lambda>l. map parse_cell (split_on (CHR '','') l)) (map (join '','') (map row [0..<n]))
                = map prow [0..<n]"
    using pr by (simp add: sr)
  have ok: "list_all (\<lambda>r. length r = length (''Unnamed: 0'' # map fst cols)
                          \<and> list_all (\<lambda>c. c \<noteq> None) r) (map prow [0..<n])"
    by (simp add: list_all_iff prow_def)
  have col0: "map (\<lambda>r. the (r ! 0)) (map prow [0..<n]) = map (\<lambda>i. Some (real i)) [0..<n]"
    by (simp add: prow_def)
  have colk: "map (\<lambda>(j, nm). (nm, map (\<lambda>r. the (r ! j)) (map prow [0..<n])))
                (enumerate (Suc 0) (map fst cols)) = cols"
  proof (rule nth_equalityI)
    show "length (map (\<lambda>(j, nm). (nm, map (\<lambda>r. the (r ! j)) (map prow [0..<n])))
                (enumerate (Suc 0) (map fst cols))) = length cols"
      by simp
  next
    fix k
    assume "k < length (map (\<lambda>(j, nm). (nm, map (\<lambda>r. the (r ! j)) (map prow [0..<n])))
                (enumerate (Suc 0) (map fst cols)))"
    then have k: "k < length cols" by simp
    then have ck: "cols ! k \<in> set cols" by simp
    have "map (\<lambda>r. the (r ! Suc k)) (map prow [0..<n]) = map (\<lambda>i. snd (cols ! k) ! i) [0..<n]"
      using k by (simp add: prow_def)
    also have "\<dots> = snd (cols ! k)"
      using len ck by (metis map_nth)
    finally show "map (\<lambda>(j, nm). (nm, map (\<lambda>r. the (r ! j)) (map prow [0..<n])))
                (enumerate (Suc 0) (map fst cols)) ! k = cols ! k"
      using k by (simp add: nth_enumerate_eq prod_eq_iff)
  qed
  have body: "split_lines (to_csv fc n cols)
                = join '','' header # map (join '','') (map row [0..<n])"
    by (simp only: lines ls_def list.map)
  have "read_csv (to_csv fc n cols)
          = (let names = header_names (split_on (CHR '','') (join '','' header));
                 rows = map (\<lambda>l. map parse_cell (split_on (CHR '','') l))
                          (map (join '','') (map row [0..<n]))
             in if list_all (\<lambda>r. length r = length names \<and> list_all (\<lambda>c. c \<noteq> None) r) rows
                then Some (map (\<lambda>(j, nm). (nm, map (\<lambda>r. the (r ! j)) rows)) (enumerate 0 names))
                else None)"
    unfolding read_csv_def body using noq by (simp only: if_False list.case)
  also have "\<dots> = Some (map (\<lambda>(j, nm). (nm, map (\<lambda>r. the (r ! j)) (map prow [0..<n])))
                    (enumerate 0 (''Unnamed: 0'' # map fst cols)))"
    unfolding sh names rows Let_def using ok by (simp only: if_True)
  also have "\<dots> = Some ((''Unnamed: 0'', map (\<lambda>i. Some (real i)) [0..<n]) # cols)"
    using col0 colk by simp
  finally show "read_csv (to_csv fc n cols)
           = Some ((''Unnamed: 0'', map (\<lambda>i. Some (real i)) [0..<n]) # cols)" .
qed

paragraph \<open>The records of a run\<close>

lemma short_decimal_tenths: "short_decimal (of_int k / 10)"
proof -
  have "(of_int k / 10 :: real) * 10 ^ 17 = of_int (k * 10 ^ 16)" by simp
  then have "of_int \<lfloor>(of_int k / 10 :: real) * 10 ^ 17\<rfloor> = (of_int k / 10 :: real) * 10 ^ 17"
    by (simp only: floor_of_int)
  then show ?thesis unfolding short_decimal_def .
qed

lemma short_decimal_of_int: "short_decimal (of_int k)"
proof -
  have "(of_int k :: real) * 10 ^ 17 = of_int (k * 10 ^ 17)" by simp
  then have "of_int \<lfloor>(of_int k :: real) * 10 ^ 17\<rfloor> = (of_int k :: real) * 10 ^ 17"
    by (simp only: floor_of_int)
  then show ?thesis unfolding short_decimal_def .
qed

lemma short_decimal_round1: "short_decimal (round1 x)"
  unfolding round1_def by (rule short_decimal_tenths)

lemma randint_decimal: "short_decimal (fst (randint a b g))"
  by (simp add: randint_def case_prod_beta short_decimal_of_int del: of_int_add)

lemma auto_readings_decimal:
  "auto_readings g = ((r1, v1, b1, r2, v2, b2), g') \<Longrightarrow>
   list_all short_decimal [r1, v1, b1, r2, v2, b2]"
  using randint_decimal short_decimal_round1
  by (auto simp: auto_readings_def case_prod_beta)

lemma tick_readings_decimal:
  assumes "decimal_tick (r1, v1, b1, r2, v2, b2, n, sd, mode)"
    and "tick_readings mode r1 v1 b1 r2 v2 b2 g = ((rain1, vib1, blast1, rain2, vib2, blast2), g0)"
  shows "list_all short_decimal [rain1, vib1, blast1, rain2, vib2, blast2]"
proof (cases "mode = ''Auto''")
  case True
  with assms(2) have "auto_readings g = ((rain1, vib1, blast1, rain2, vib2, blast2), g0)"
    by (simp add: tick_readings_def)
  then show ?thesis by (rule auto_readings_decimal)
next
  case False
  with assms show ?thesis
    by (simp add: tick_readings_def decimal_tick_def)
qed

lemma update_dashboard_record:
  assumes "decimal_tick (r1, v1, b1, r2, v2, b2, n, sd, mode)"
  shows "\<exists>out st' rec. update_dashboard r1 v1 b1 r2 v2 b2 n sd mode st = Inr (out, st')
      \<and> history st' = append_history rec (history st) \<and> tick_record rec"
proof -
  obtain rain1 vib1 blast1 rain2 vib2 blast2 g0 where
    rd: "tick_readings mode r1 v1 b1 r2 v2 b2 (rng st)
           = ((rain1, vib1, blast1, rain2, vib2, blast2), g0)"
    by (metis surj_pair)
  obtain k1 s1 g1 where
    c1: "compute_score rain1 vib1 blast1 35 (mode = ''Manual'') g0 = ((k1, s1), g1)"
    by (metis surj_pair)
  obtain k2 s2 g2 where
    c2: "compute_score rain1 vib1 blast1 50 (mode = ''Manual'') g1 = ((k2, s2), g2)"
    by (metis surj_pair)
  obtain k3 s3 g3 where
    c3: "compute_score rain2 vib2 blast2 45 (mode = ''Manual'') g2 = ((k3, s3), g3)"
    by (metis surj_pair)
  obtain k4 s4 g4 where
    c4: "compute_score rain2 vib2 blast2 60 (mode = ''Manual'') g3 = ((k4, s4), g4)"
    by (metis surj_pair)
  define rec where "rec =
      [(''rain1'', rain1), (''vib1'', vib1), (''blast1'', blast1),
       (''rain2'', rain2), (''vib2'', vib2), (''blast2'', blast2),
       (''Bench 1'', round1 s1), (''Bench 2'', round1 s2),
       (''Bench 3'', round1 s3), (''Bench 4'', round1 s4)]"
  have tr: "tick_record rec"
    using tick_readings_decimal [OF assms rd]
    by (simp add: tick_record_def rec_def record_fields_def short_decimal_round1)
  from update_dashboard_result [OF rd c1 c2 c3 c4 refl refl, of n sd]
  obtain out st' where
    u: "update_dashboard r1 v1 b1 r2 v2 b2 n sd mode st = Inr (out, st')"
    and h: "history st' = append_history rec (history st)"
    unfolding rec_def by auto
  with tr show ?thesis by blast
qed

lemma append_history_records:
  assumes "list_all tick_record h" "tick_record rec" "length h \<le> 200"
  shows "list_all tick_record (append_history rec h)"
    and "length (append_history rec h) = min (Suc (length h)) 200"
proof -
  show "list_all tick_record (append_history rec h)"
    using assms(1,2) by (cases h) (simp_all add: append_history_def Let_def)
  show "length (append_history rec h) = min (Suc (length h)) 200"
    using assms(3) by (simp add: append_history_def Let_def)
qed

lemma run_ticks_records:
  "list_all decimal_tick ticks \<Longrightarrow> list_all tick_record (history st0) \<Longrightarrow>
   length (history st0) \<le> 200 \<Longrightarrow>
   \<exists>st. run_ticks ticks st0 = Inr st \<and> list_all tick_record (history st)
      \<and> length (history st) = min (length (history st0) + length ticks) 200"
proof (induction ticks st0 rule: run_ticks.induct)
  case (1 st)
  then show ?case by simp
next
  case (2 r1 v1 b1 r2 v2 b2 n sd mode ts st)
  from "2.prems"(1) have dt: "decimal_tick (r1, v1, b1, r2, v2, b2, n, sd, mode)"
    and dts: "list_all decimal_tick ts"
    by simp_all
  from update_dashboard_record [OF dt, of st]
  obtain out st' rec where
    u: "update_dashboard r1 v1 b1 r2 v2 b2 n sd mode st = Inr (out, st')"
    and h: "history st' = append_history rec (history st)"
    and tr: "tick_record rec"
    by blast
  from append_history_records [OF "2.prems"(2) tr "2.prems"(3)] h
  have a: "list_all tick_record (history st')"
    and l: "length (history st') = min (Suc (length (history st))) 200"
    by simp_all
  from l have l200: "length (history st') \<le> 200" by simp
  from "2.IH" [OF u refl dts a l200]
  obtain st2 where r: "run_ticks ts st' = Inr st2"
    and a2: "list_all tick_record (history st2)"
    and l2: "length (history st2) = min (length (history st') + length ts) 200"
    by blast
  from l2 l have "length (history st2) = min (length (history st) + length ((r1, v1, b1, r2, v2, b2, n, sd, mode) # ts)) 200"
    by simp
  with r a2 show ?case
    by (simp add: u)
qed

lemma remdups_append_subset: "set xs \<subseteq> set ys \<Longrightarrow> remdups (xs @ ys) = remdups ys"
  by (induction xs) auto

lemma frame_columns_records:
  assumes "h \<noteq> []" "list_all tick_record h"
  shows "frame_columns h = record_fields"
proof -
  obtain rec h' where h: "h = rec # h'" using assms(1) by (cases h) auto
  have k: "map fst rec = record_fields" using assms(2) h by (simp add: tick_record_def)
  have "set (concat (map (map fst) h')) \<subseteq> set record_fields"
    using assms(2) h by (auto simp: list_all_iff tick_record_def)
  then have "set (rev (concat (map (map fst) h'))) \<subseteq> set (rev record_fields)"
    by simp
  from remdups_append_subset [OF this]
  have "remdups (rev (concat (map (map fst) h))) = remdups (rev record_fields)"
    by (simp add: h k)
  also have "\<dots> = rev record_fields"
    by (simp add: record_fields_def)
  finally show ?thesis
    by (simp add: frame_columns_def)
qed

lemma tick_record_value:
  assumes "tick_record rec" "k \<in> set record_fields"
  shows "\<exists>x. map_of rec k = Some x \<and> short_decimal x"
proof -
  from assms have "k \<in> fst ` set rec" by (simp add: tick_record_def flip: set_map)
  then obtain x where m: "map_of rec k = Some x"
    by (metis domD dom_map_of_conv_image_fst)
  then have "(k, x) \<in> set rec" by (rule map_of_SomeD)
  with assms(1) have "short_decimal x" by (auto simp: tick_record_def list_all_iff)
  with m show ?thesis by blast
qed

lemma data_frame_records:
  assumes "h \<noteq> []" "list_all tick_record h"
  shows "data_frame h = map (\<lambda>k. (k, map (\<lambda>rec. map_of rec k) h)) record_fields"
  by (simp add: data_frame_def frame_columns_records [OF assms])

paragraph \<open>The exported frame\<close>

lemma record_fields_plain: "\<forall>k \<in> set record_fields. plain_text k \<and> k \<noteq> []"
  by (simp add: record_fields_def plain_text_def)

lemma export_read_back:
  assumes ne: "history st \<noteq> []" and tr: "list_all tick_record (history st)"
  shows "snd (export_csv n st)
           = map (\<lambda>k. (k, map (\<lambda>rec. map_of rec k) (history st))) record_fields"
    and "split_lines (download_content float_col n st)
           = join '','' ([] # record_fields)
             # map (\<lambda>i. join '',''
                     (show_nat i
                      # map (\<lambda>k. cell_text (float_col k) (map_of (history st ! i) k))
                          record_fields))
                 [0..<length (history st)]"
    and "read_csv (download_content float_col n st)
           = Some ((''Unnamed: 0'', map (\<lambda>i. Some (real i)) [0..<length (history st)])
                   # snd (export_csv n st))"
proof -
  define h where "h = history st"
  define cols where "cols = map (\<lambda>k. (k, map (\<lambda>rec. map_of rec k) h)) record_fields"
  show ex: "snd (export_csv n st)
           = map (\<lambda>k. (k, map (\<lambda>rec. map_of rec k) (history st))) record_fields"
    using data_frame_records [OF ne tr] by (simp add: export_csv_def)
  then have ex': "snd (export_csv n st) = cols"
    by (simp add: cols_def h_def)
  have dl: "download_content float_col n st = to_csv float_col (length h) cols"
    by (simp add: download_content_def ex' h_def)
  have c1: "cols \<noteq> []" by (simp add: cols_def record_fields_def)
  have c2: "\<forall>col \<in> set cols. plain_text (fst col) \<and> fst col \<noteq> []"
    using record_fields_plain by (auto simp: cols_def)
  have c3: "\<forall>col \<in> set cols. length (snd col) = length h"
    by (auto simp: cols_def)
  have c4: "\<forall>col \<in> set cols. \<forall>v \<in> set (snd col).
                (case v of None \<Rightarrow> True | Some x \<Rightarrow> short_decimal x)"
  proof (intro ballI)
    fix col v
    assume "col \<in> set cols" "v \<in> set (snd col)"
    then obtain k rec where k: "k \<in> set record_fields" and r: "rec \<in> set h"
      and v: "v = map_of rec k"
      by (auto simp: cols_def)
    from tr r have "tick_record rec" by (simp add: list_all_iff h_def)
    from tick_record_value [OF this k] v
    show "case v of None \<Rightarrow> True | Some x \<Rightarrow> short_decimal x" by auto
  qed
  have rows: "map (\<lambda>col. cell_text (float_col (fst col)) (snd col ! i)) cols
                = map (\<lambda>k. cell_text (float_col k) (map_of (h ! i) k)) record_fields"
    if "i < length h" for i
    using that by (simp add: cols_def comp_def)
  have "split_lines (download_content float_col n st)
          = join '','' ([] # map fst cols)
             # map (\<lambda>i. join '','' (show_nat i
                      # map (\<lambda>col. cell_text (float_col (fst col)) (snd col ! i)) cols))
                 [0..<length h]"
    unfolding dl by (rule read_to_csv(2) [OF c1 c2 c3 c4])
  also have "map fst cols = record_fields"
    by (simp add: cols_def comp_def)
  also have "map (\<lambda>i. join '','' (show_nat i
                      # map (\<lambda>col. cell_text (float_col (fst col)) (snd col ! i)) cols))
                 [0..<length h]
             = map (\<lambda>i. join '','' (show_nat i
                      # map (\<lambda>k. cell_text (float_col k) (map_of (h ! i) k)) record_fields))
                 [0..<length h]"
    using rows by simp
  finally show "split_lines (download_content float_col n st)
           = join '','' ([] # record_fields)
             # map (\<lambda>i. join '',''
                     (show_nat i
                      # map (\<lambda>k. cell_text (float_col k) (map_of (history st ! i) k))
                          record_fields))
                 [0..<length (history st)]"
    unfolding h_def .
  show "read_csv (download_content float_col n st)
           = Some ((''Unnamed: 0'', map (\<lambda>i. Some (real i)) [0..<length (history st)])
                   # snd (export_csv n st))"
    unfolding dl ex' using read_to_csv(1) [OF c1 c2 c3 c4, of float_col] by (simp add: h_def)
qed

lemma frac_digits_numeral:
  "frac_digits (numeral k) f =
     (let d = nat \<lfloor>f * 10\<rfloor>
      in (''0123456789'' ! d)
         # (if f * 10 - real d = 0 then [] else frac_digits (pred_numeral k) (f * 10 - real d)))"
  by (simp add: numeral_eq_Suc)

lemma one_record_tick: "tick_record one_record"
proof -
  have "short_decimal (of_int 100)" "short_decimal (of_int 5)" "short_decimal (of_int 3)"
    "short_decimal (of_int 1252 / 10)" "short_decimal (of_int 1328 / 10)"
    "short_decimal (of_int 1302 / 10)" "short_decimal (of_int 1378 / 10)"
    by (rule short_decimal_of_int short_decimal_tenths)+
  then show ?thesis
    by (simp add: tick_record_def one_record_def record_fields_def)
qed

lemma first_tick_history:
  "\<exists>out st'. update_dashboard 0 0 0 0 0 0 0 False ''Auto'' (fresh_state (half_source 0))
                = Inr (out, st')
     \<and> history st' = [one_record]"
proof -
  have rd: "tick_readings ''Auto'' 0 0 0 0 0 0 (rng (fresh_state (half_source 0)))
     = ((100, 5, 3, 100, 5, 3), half_source 6)"
    by (simp add: tick_readings_def fresh_state_def auto_readings_half)
  have c: "compute_score 100 5 3 35 (''Auto'' = ''Manual'') (half_source 6)
       = ((''High'', 125.25), half_source 8)"
    "compute_score 100 5 3 50 (''Auto'' = ''Manual'') (half_source 8)
       = ((''High'', 132.75), half_source 10)"
    "compute_score 100 5 3 45 (''Auto'' = ''Manual'') (half_source 10)
       = ((''High'', 130.25), half_source 12)"
    "compute_score 100 5 3 60 (''Auto'' = ''Manual'') (half_source 12)
       = ((''High'', 137.75), half_source 14)"
    using compute_score_half by simp_all
  have h: "append_history
      [(''rain1'', 100), (''vib1'', 5), (''blast1'', 3),
       (''rain2'', 100), (''vib2'', 5), (''blast2'', 3),
       (''Bench 1'', round1 125.25), (''Bench 2'', round1 132.75),
       (''Bench 3'', round1 130.25), (''Bench 4'', round1 137.75)]
      (history (fresh_state (half_source 0))) = [one_record]"
    unfolding round1_half by (simp add: append_history_def fresh_state_def one_record_def)
  from update_dashboard_result [OF rd c refl refl, of 0 False]
  show ?thesis
    unfolding h by auto
qed

lemma download_one_record:
  "history st = [one_record] \<Longrightarrow>
   download_content auto_float_column n st
     = '',rain1,vib1,blast1,rain2,vib2,blast2,Bench 1,Bench 2,Bench 3,Bench 4'' @ [CHR 0x0A]
       @ ''0,100,5.0,3,100,5.0,3,125.2,132.8,130.2,137.8'' @ [CHR 0x0A]"
  by (simp add: download_content_def export_csv_def data_frame_def frame_columns_def
      one_record_def to_csv_def csv_line_def csv_field_def cell_text_def number_text_def
      auto_float_column_def Let_def frac_digits_numeral show_nat.simps)

subsection \<open>The round trip\<close>

text \<open>
  Claim C8, as amended. After any non-empty run of ticks from an empty history, in which
  every Manual reading has at most 17 fractional digits, \<^verbatim>\<open>export_csv\<close> returns the name
  \<^verbatim>\<open>risk_report.csv\<close> and a frame with one column for each field of the history records, in
  their order, and one row for each retained record (the number of ticks, at most 200). The
  text sent has one header line and one line for each retained record. The header cells are
  an empty cell and then the field names; line \<open>i\<close> holds the row index \<open>i\<close> and then the
  values of record \<open>i\<close>. Reading the text back gives the exported frame, with the same
  values in every field of every record, behind one more column, named \<^verbatim>\<open>Unnamed: 0\<close>,
  that holds the row indices. This holds whichever columns are written as floats.
\<close>

theorem export_round_trip:
  assumes "history st0 = []" and "ticks \<noteq> []" and "list_all decimal_tick ticks"
  shows "\<exists>st. run_ticks ticks st0 = Inr st
     \<and> length (history st) = min (length ticks) 200
     \<and> list_all (\<lambda>rec. map fst rec = record_fields) (history st)
     \<and> export_csv n st
         = (''risk_report.csv'',
            map (\<lambda>k. (k, map (\<lambda>rec. map_of rec k) (history st))) record_fields)
     \<and> length (split_lines (download_content float_col n st)) = length (history st) + 1
     \<and> split_on (CHR '','') (hd (split_lines (download_content float_col n st)))
         = [] # record_fields
     \<and> tl (split_lines (download_content float_col n st))
         = map (\<lambda>i. join '',''
                   (show_nat i
                    # map (\<lambda>k. cell_text (float_col k) (map_of (history st ! i) k))
                        record_fields))
             [0..<length (history st)]
     \<and> read_csv (download_content float_col n st)
         = Some ((''Unnamed: 0'', map (\<lambda>i. Some (real i)) [0..<length (history st)])
                 # snd (export_csv n st))"
proof -
  from run_ticks_records [OF assms(3), of st0] assms(1)
  obtain st where r: "run_ticks ticks st0 = Inr st"
    and tr: "list_all tick_record (history st)"
    and l: "length (history st) = min (length ticks) 200"
    by auto
  from l assms(2) have ne: "history st \<noteq> []"
    by (cases ticks) auto
  note e = export_read_back [OF ne tr]
  have k: "list_all (\<lambda>rec. map fst rec = record_fields) (history st)"
    using tr by (simp add: list_all_iff tick_record_def)
  have x: "export_csv n st
         = (''risk_report.csv'',
            map (\<lambda>k. (k, map (\<lambda>rec. map_of rec k) (history st))) record_fields)"
    using e(1) by (simp add: export_csv_def)
  have hp: "list_all plain_text ([] # record_fields)"
    using record_fields_plain by (simp add: list_all_iff plain_text_def)
  have hd: "split_on (CHR '','') (hd (split_lines (download_content float_col n st)))
         = [] # record_fields"
    unfolding e(2) list.sel by (rule split_join_plain [OF hp]) simp
  have ln: "length (split_lines (download_content float_col n st)) = length (history st) + 1"
    unfolding e(2) by simp
  have tl: "tl (split_lines (download_content float_col n st))
         = map (\<lambda>i. join '',''
                   (show_nat i
                    # map (\<lambda>k. cell_text (float_col k) (map_of (history st ! i) k))
                        record_fields))
             [0..<length (history st)]"
    unfolding e(2) list.sel ..
  from r l k x ln hd tl e(3) show ?thesis
    by (intro exI conjI)
qed

text \<open>
  Claim C8 as it was stated fails on the index column. The first Auto tick from the example
  state leaves the history \<open>[one_record]\<close> (the state below differs from the one the tick
  leaves in the random source only, which the export does not read). The text sent is
  the two lines shown: the header has eleven cells, the first of them empty, and not the ten
  field names; and reading the text back gives eleven columns, not the exported frame.
\<close>

theorem export_round_trip_counterexample:
  "map_sum id (history \<circ> snd)
     (update_dashboard 0 0 0 0 0 0 0 False ''Auto'' (fresh_state (half_source 0)))
     = Inr [one_record]
   \<and> download_content auto_float_column 0 ((fresh_state (half_source 0))\<lparr>history := [one_record]\<rparr>)
     = '',rain1,vib1,blast1,rain2,vib2,blast2,Bench 1,Bench 2,Bench 3,Bench 4'' @ [CHR 0x0A]
       @ ''0,100,5.0,3,100,5.0,3,125.2,132.8,130.2,137.8'' @ [CHR 0x0A]
   \<and> split_on (CHR '','')
       (hd (split_lines (download_content auto_float_column 0
              ((fresh_state (half_source 0))\<lparr>history := [one_record]\<rparr>))))
     = [] # map fst one_record
   \<and> split_on (CHR '','')
       (hd (split_lines (download_content auto_float_column 0
              ((fresh_state (half_source 0))\<lparr>history := [one_record]\<rparr>))))
     \<noteq> map fst one_record
   \<and> read_csv (download_content auto_float_column 0
                 ((fresh_state (half_source 0))\<lparr>history := [one_record]\<rparr>))
     = Some ((''Unnamed: 0'', [Some 0])
             # snd (export_csv 0 ((fresh_state (half_source 0))\<lparr>history := [one_record]\<rparr>)))
   \<and> read_csv (download_content auto_float_column 0
                 ((fresh_state (half_source 0))\<lparr>history := [one_record]\<rparr>))
     \<noteq> Some (snd (export_csv 0 ((fresh_state (half_source 0))\<lparr>history := [one_record]\<rparr>)))"
proof -
  define st where "st = (fresh_state (half_source 0))\<lparr>history := [one_record]\<rparr>"
  have h: "history st = [one_record]" by (simp add: st_def)
  then have ne: "history st \<noteq> []" and tr: "list_all tick_record (history st)"
    using one_record_tick by simp_all
  note e = export_read_back [OF ne tr]
  have f: "map fst one_record = record_fields"
    using one_record_tick by (simp add: tick_record_def)
  have hp: "list_all plain_text ([] # record_fields)"
    using record_fields_plain by (simp add: list_all_iff plain_text_def)
  have a: "map_sum id (history \<circ> snd)
     (update_dashboard 0 0 0 0 0 0 0 False ''Auto'' (fresh_state (half_source 0)))
     = Inr [one_record]"
    using first_tick_history by auto
  have b: "download_content auto_float_column 0 st
     = '',rain1,vib1,blast1,rain2,vib2,blast2,Bench 1,Bench 2,Bench 3,Bench 4'' @ [CHR 0x0A]
       @ ''0,100,5.0,3,100,5.0,3,125.2,132.8,130.2,137.8'' @ [CHR 0x0A]"
    by (rule download_one_record [OF h])
  have c: "split_on (CHR '','') (hd (split_lines (download_content auto_float_column 0 st)))
     = [] # map fst one_record"
    unfolding e(2) list.sel f by (rule split_join_plain [OF hp]) simp
  then have d: "split_on (CHR '','') (hd (split_lines (download_content auto_float_column 0 st)))
     \<noteq> map fst one_record"
    by simp
  have r: "read_csv (download_content auto_float_column 0 st)
     = Some ((''Unnamed: 0'', [Some 0]) # snd (export_csv 0 st))"
    unfolding e(3) by (simp add: h)
  then have n: "read_csv (download_content auto_float_column 0 st) \<noteq> Some (snd (export_csv 0 st))"
    by simp
  from a b c d r n show ?thesis
    unfolding st_def by (intro conjI)
qed

text \<open>The run of one Auto tick from the example state, its file and the frame read back.\<close>

theorem export_round_trip_witness:
  "history (fresh_state (half_source 0)) = []
   \<and> [(0, 0, 0, 0, 0, 0, 0, False, ''Auto'')] \<noteq> ([] :: tick_input list)
   \<and> list_all decimal_tick [(0, 0, 0, 0, 0, 0, 0, False, ''Auto'')]
   \<and> (\<exists>st. run_ticks [(0, 0, 0, 0, 0, 0, 0, False, ''Auto'')] (fresh_state (half_source 0)) = Inr st
        \<and> history st = [one_record]
        \<and> download_content auto_float_column 0 st
            = '',rain1,vib1,blast1,rain2,vib2,blast2,Bench 1,Bench 2,Bench 3,Bench 4'' @ [CHR 0x0A]
              @ ''0,100,5.0,3,100,5.0,3,125.2,132.8,130.2,137.8'' @ [CHR 0x0A]
        \<and> read_csv (download_content auto_float_column 0 st)
            = Some [(''Unnamed: 0'', [Some 0]),
                    (''rain1'', [Some 100]), (''vib1'', [Some 5]), (''blast1'', [Some 3]),
                    (''rain2'', [Some 100]), (''vib2'', [Some 5]), (''blast2'', [Some 3]),
                    (''Bench 1'', [Some 125.2]), (''Bench 2'', [Some 132.8]),
                    (''Bench 3'', [Some 130.2]), (''Bench 4'', [Some 137.8])])"
proof -
  have h0: "history (fresh_state (half_source 0)) = []"
    by (simp add: fresh_state_def)
  have ne: "[(0, 0, 0, 0, 0, 0, 0, False, ''Auto'')] \<noteq> ([] :: tick_input list)"
    by simp
  have dt: "list_all decimal_tick [(0, 0, 0, 0, 0, 0, 0, False, ''Auto'')]"
    by (simp add: decimal_tick_def)
  from export_round_trip [OF h0 ne dt, of 0 auto_float_column]
  obtain st where r: "run_ticks [(0, 0, 0, 0, 0, 0, 0, False, ''Auto'')] (fresh_state (half_source 0)) = Inr st"
    and x: "export_csv 0 st
         = (''risk_report.csv'',
            map (\<lambda>k. (k, map (\<lambda>rec. map_of rec k) (history st))) record_fields)"
    and rc: "read_csv (download_content auto_float_column 0 st)
         = Some ((''Unnamed: 0'', map (\<lambda>i. Some (real i)) [0..<length (history st)])
                 # snd (export_csv 0 st))"
    by (elim exE conjE) (rule that; assumption)
  from first_tick_history r have h: "history st = [one_record]"
    by auto
  have d: "download_content auto_float_column 0 st
            = '',rain1,vib1,blast1,rain2,vib2,blast2,Bench 1,Bench 2,Bench 3,Bench 4'' @ [CHR 0x0A]
              @ ''0,100,5.0,3,100,5.0,3,125.2,132.8,130.2,137.8'' @ [CHR 0x0A]"
    by (rule download_one_record [OF h])
  have f: "read_csv (download_content auto_float_column 0 st)
            = Some [(''Unnamed: 0'', [Some 0]),
                    (''rain1'', [Some 100]), (''vib1'', [Some 5]), (''blast1'', [Some 3]),
                    (''rain2'', [Some 100]), (''vib2'', [Some 5]), (''blast2'', [Some 3]),
                    (''Bench 1'', [Some 125.2]), (''Bench 2'', [Some 132.8]),
                    (''Bench 3'', [Some 130.2]), (''Bench 4'', [Some 137.8])]"
    unfolding rc x by (simp add: h one_record_def record_fields_def)
  have "\<exists>st. run_ticks [(0, 0, 0, 0, 0, 0, 0, False, ''Auto'')] (fresh_state (half_source 0)) = Inr st
        \<and> history st = [one_record]
        \<and> download_content auto_float_column 0 st
            = '',rain1,vib1,blast1,rain2,vib2,blast2,Bench 1,Bench 2,Bench 3,Bench 4'' @ [CHR 0x0A]
              @ ''0,100,5.0,3,100,5.0,3,125.2,132.8,130.2,137.8'' @ [CHR 0x0A]
        \<and> read_csv (download_content auto_float_column 0 st)
            = Some [(''Unnamed: 0'', [Some 0]),
                    (''rain1'', [Some 100]), (''vib1'', [Some 5]), (''blast1'', [Some 3]),
                    (''rain2'', [Some 100]), (''vib2'', [Some 5]), (''blast2'', [Some 3]),
                    (''Bench 1'', [Some 125.2]), (''Bench 2'', [Some 132.8]),
                    (''Bench 3'', [Some 130.2]), (''Bench 4'', [Some 137.8])]"
    using r h d f by (intro exI conjI)
  with h0 ne dt show ?thesis by (intro conjI)
qed

end
